theory Spec2Isabelle
  imports Complex_Main
begin


section \<open>Errors as values\<close>

text \<open>
  Every exception that the module or the numpy calls it makes can raise is a value of
  \<open>error\<close>; a computation that may raise returns \<open>error + 'a\<close> with \<open>Inl\<close> for the
  exception. The string is the exception's message.
\<close>

datatype error =
    ValueError string
  | KeyError string
  | IndexError string
  | AttributeError string
  | AssertionError
  | ZeroDivisionError

definition bindE :: "error + 'a \<Rightarrow> ('a \<Rightarrow> error + 'b) \<Rightarrow> error + 'b" where
  "bindE m f = (case m of Inl e \<Rightarrow> Inl e | Inr x \<Rightarrow> f x)"

section \<open>numpy arrays\<close>

text \<open>
  An array is its shape and its elements in row-major order. The element type is a
  parameter: the operators below use only the arithmetic operations of the type, and
  no law of them.
\<close>

record 'a ndarray =
  shape :: "nat list"
  data :: "'a list"

definition np_zeros :: "nat list \<Rightarrow> ('a::zero) ndarray" where
  "np_zeros s = \<lparr>shape = s, data = replicate (prod_list s) 0\<rparr>"

subsection \<open>Broadcasting\<close>

fun broadcast_dim :: "nat \<Rightarrow> nat \<Rightarrow> nat option" where
  "broadcast_dim a b =
     (if a = b then Some a else if a = 1 then Some b else if b = 1 then Some a else None)"

text \<open>Both shapes reversed: the trailing axes are matched first, a missing axis counts as 1.\<close>

fun broadcast_rev :: "nat list \<Rightarrow> nat list \<Rightarrow> nat list option" where
  "broadcast_rev [] bs = Some bs"
| "broadcast_rev (a # as) [] = Some (a # as)"
| "broadcast_rev (a # as) (b # bs) =
     (case broadcast_dim a b of
        None \<Rightarrow> None
      | Some d \<Rightarrow> (case broadcast_rev as bs of None \<Rightarrow> None | Some ds \<Rightarrow> Some (d # ds)))"

definition broadcast_shapes :: "nat list \<Rightarrow> nat list \<Rightarrow> nat list option" where
  "broadcast_shapes s t = map_option rev (broadcast_rev (rev s) (rev t))"

definition pad_shape :: "nat \<Rightarrow> nat list \<Rightarrow> nat list" where
  "pad_shape n s = replicate (n - length s) 1 @ s"

text \<open>
  \<open>bc_index s r k\<close>: the row-major position, in an array of shape \<open>s\<close>, of the element
  that broadcasting to shape \<open>r\<close> puts at row-major position \<open>k\<close>; an axis of length 1 of
  \<open>s\<close> is repeated along the axis of \<open>r\<close>.
\<close>

fun bc_index :: "nat list \<Rightarrow> nat list \<Rightarrow> nat \<Rightarrow> nat" where
  "bc_index (s # ss) (r # rs) k =
     (if s = 1 then 0 else (k div prod_list rs) * prod_list ss)
       + bc_index ss rs (k mod prod_list rs)"
| "bc_index _ _ k = 0"

definition broadcast_data :: "'a ndarray \<Rightarrow> nat list \<Rightarrow> 'a list" where
  "broadcast_data a r =
     map (\<lambda>k. data a ! bc_index (pad_shape (length r) (shape a)) r k) [0..<prod_list r]"

text \<open>An elementwise binary operation of two arrays (\<open>a * b\<close>, \<open>a - b\<close>, \<open>a + b\<close>).\<close>

definition np_binop :: "('a \<Rightarrow> 'a \<Rightarrow> 'a) \<Rightarrow> 'a ndarray \<Rightarrow> 'a ndarray \<Rightarrow> error + 'a ndarray" where
  "np_binop f a b =
     (case broadcast_shapes (shape a) (shape b) of
        None \<Rightarrow> Inl (ValueError ''operands could not be broadcast together'')
      | Some r \<Rightarrow>
          Inr \<lparr>shape = r, data = map2 f (broadcast_data a r) (broadcast_data b r)\<rparr>)"

definition np_mul :: "('a::times) ndarray \<Rightarrow> 'a ndarray \<Rightarrow> error + 'a ndarray" where
  "np_mul = np_binop (\<lambda>x y. x * y)"

definition np_sub :: "('a::minus) ndarray \<Rightarrow> 'a ndarray \<Rightarrow> error + 'a ndarray" where
  "np_sub = np_binop (\<lambda>x y. x - y)"

definition np_add :: "('a::plus) ndarray \<Rightarrow> 'a ndarray \<Rightarrow> error + 'a ndarray" where
  "np_add = np_binop (\<lambda>x y. x + y)"

text \<open>A Python float times an array: every element is multiplied, the shape is kept.\<close>

definition np_smul :: "('a::times) \<Rightarrow> 'a ndarray \<Rightarrow> 'a ndarray" where
  "np_smul c a = \<lparr>shape = shape a, data = map (\<lambda>x. c * x) (data a)\<rparr>"

text \<open>\<open>a[:, None]\<close>: a new axis of length 1 after the first one; a 0-d array has no first axis.\<close>

definition np_newaxis1 :: "'a ndarray \<Rightarrow> error + 'a ndarray" where
  "np_newaxis1 a =
     (case shape a of
        [] \<Rightarrow> Inl (IndexError ''too many indices for array'')
      | d # ds \<Rightarrow> Inr \<lparr>shape = d # 1 # ds, data = data a\<rparr>)"

text \<open>
  \<open>np.outer(a, b)\<close> flattens both arguments and multiplies a column by a row:
  \<open>multiply(a.ravel()[:, newaxis], b.ravel()[newaxis, :])\<close>.
\<close>

definition np_outer :: "('a::times) ndarray \<Rightarrow> 'a ndarray \<Rightarrow> error + 'a ndarray" where
  "np_outer a b =
     np_mul \<lparr>shape = [length (data a), 1], data = data a\<rparr>
            \<lparr>shape = [1, length (data b)], data = data b\<rparr>"

text \<open>
  \<open>d[...] = v\<close>: the value is broadcast to the shape of \<open>d\<close>. A value of higher rank
  first loses its leading axes of length 1; the shape of \<open>d\<close> never changes.
\<close>

fun strip_ones :: "nat \<Rightarrow> nat list \<Rightarrow> nat list" where
  "strip_ones n [] = []"
| "strip_ones n (d # ds) = (if n < Suc (length ds) \<and> d = 1 then strip_ones n ds else d # ds)"

definition np_assign :: "'a ndarray \<Rightarrow> 'a ndarray \<Rightarrow> error + 'a ndarray" where
  "np_assign d v =
     (let s = strip_ones (length (shape d)) (shape v) in
      if length s \<le> length (shape d)
         \<and> list_all2 (\<lambda>x r. x = r \<or> x = 1) (pad_shape (length (shape d)) s) (shape d)
      then Inr \<lparr>shape = shape d, data = broadcast_data \<lparr>shape = s, data = data v\<rparr> (shape d)\<rparr>
      else Inl (ValueError ''could not broadcast input array''))"

text \<open>
  \<open>d[...] += v\<close>: the sum is written into the buffer of \<open>d\<close>, so the broadcast shape
  of the two operands has to be the shape of \<open>d\<close>.
\<close>

definition np_iadd :: "('a::plus) ndarray \<Rightarrow> 'a ndarray \<Rightarrow> error + 'a ndarray" where
  "np_iadd d v =
     bindE (np_add d v) (\<lambda>r.
       if shape r = shape d then Inr r
       else Inl (ValueError ''non-broadcastable output operand''))"

section \<open>Signals and buffers\<close>

text \<open>
  A signal dictionary maps each signal to its array. The arrays are shared, mutable
  objects: the dictionary gives the address of the buffer and the heap its current
  contents. A step function holds the addresses it got from the dictionary when it was
  made and works on the heap; two signals may share one buffer.
\<close>

type_synonym 'a heap = "nat \<Rightarrow> 'a ndarray"

type_synonym 'k sigdict = "'k \<rightharpoonup> nat"

definition sig_lookup :: "'k sigdict \<Rightarrow> 'k \<Rightarrow> error + nat" where
  "sig_lookup signals k =
     (case signals k of None \<Rightarrow> Inl (KeyError ''signal'') | Some a \<Rightarrow> Inr a)"

section \<open>The learning-rule operators\<close>

text \<open>The attributes every \<open>Operator\<close> has: the four lists of the signals it touches.\<close>

record 'k Operator =
  sets :: "'k list"
  incs :: "'k list"
  reads :: "'k list"
  updates :: "'k list"

subsection \<open>SimBCM\<close>

record ('k, 'a) SimBCM = "'k Operator" +
  bcm_post_filtered :: 'k
  bcm_pre_filtered :: 'k
  bcm_theta :: 'k
  bcm_delta :: 'k
  bcm_learning_rate :: 'a
  bcm_tag :: "string option"

definition SimBCM_init ::
  "'k \<Rightarrow> 'k \<Rightarrow> 'k \<Rightarrow> 'k \<Rightarrow> 'a \<Rightarrow> string option \<Rightarrow> ('k, 'a) SimBCM" where
  "SimBCM_init pre_filtered post_filtered theta delta learning_rate tag =
     \<lparr>sets = [], incs = [],
      reads = [pre_filtered, post_filtered, theta],
      updates = [delta],
      bcm_post_filtered = post_filtered,
      bcm_pre_filtered = pre_filtered,
      bcm_theta = theta,
      bcm_delta = delta,
      bcm_learning_rate = learning_rate,
      bcm_tag = tag\<rparr>"

text \<open>
  \<open>delta[...] = np.outer(alpha * post_filtered * (post_filtered - theta), pre_filtered)\<close>
\<close>

definition step_simbcm ::
  "('a::{times,minus}) \<Rightarrow> nat \<Rightarrow> nat \<Rightarrow> nat \<Rightarrow> nat \<Rightarrow> 'a heap \<Rightarrow> error + 'a heap" where
  "step_simbcm alpha pre_filtered post_filtered theta delta h =
     bindE (np_sub (h post_filtered) (h theta)) (\<lambda>d.
     bindE (np_mul (np_smul alpha (h post_filtered)) d) (\<lambda>a.
     bindE (np_outer a (h pre_filtered)) (\<lambda>v.
     bindE (np_assign (h delta) v) (\<lambda>r.
     Inr (h(delta := r))))))"

definition make_step_simbcm ::
  "('k, 'a::{times,minus}) SimBCM \<Rightarrow> 'k sigdict \<Rightarrow> 'a \<Rightarrow> error + ('a heap \<Rightarrow> error + 'a heap)" where
  "make_step_simbcm self signals dt =
     bindE (sig_lookup signals (bcm_pre_filtered self)) (\<lambda>pre_filtered.
     bindE (sig_lookup signals (bcm_post_filtered self)) (\<lambda>post_filtered.
     bindE (sig_lookup signals (bcm_theta self)) (\<lambda>theta.
     bindE (sig_lookup signals (bcm_delta self)) (\<lambda>delta.
     let alpha = bcm_learning_rate self * dt in
     Inr (step_simbcm alpha pre_filtered post_filtered theta delta)))))"

subsection \<open>SimOja\<close>

record ('k, 'a) SimOja = "'k Operator" +
  oja_post_filtered :: 'k
  oja_pre_filtered :: 'k
  oja_weights :: 'k
  oja_delta :: 'k
  oja_learning_rate :: 'a
  oja_beta :: 'a
  oja_tag :: "string option"

definition SimOja_init ::
  "'k \<Rightarrow> 'k \<Rightarrow> 'k \<Rightarrow> 'k \<Rightarrow> 'a \<Rightarrow> 'a \<Rightarrow> string option \<Rightarrow> ('k, 'a) SimOja" where
  "SimOja_init pre_filtered post_filtered weights delta learning_rate beta tag =
     \<lparr>sets = [], incs = [],
      reads = [pre_filtered, post_filtered, weights],
      updates = [delta],
      oja_post_filtered = post_filtered,
      oja_pre_filtered = pre_filtered,
      oja_weights = weights,
      oja_delta = delta,
      oja_learning_rate = learning_rate,
      oja_beta = beta,
      oja_tag = tag\<rparr>"

text \<open>
  The forgetting term is assigned to the buffer of \<open>delta\<close> first; the second statement
  reads the heap as the first one left it.
  \<^verbatim>\<open>
  post_squared = alpha * post_filtered * post_filtered
  delta[...] = -beta * weights * post_squared[:, None]
  delta[...] += np.outer(alpha * post_filtered, pre_filtered)
  \<close>
\<close>

definition step_simoja ::
  "('a::{times,plus,uminus}) \<Rightarrow> 'a \<Rightarrow> nat \<Rightarrow> nat \<Rightarrow> nat \<Rightarrow> nat \<Rightarrow> 'a heap \<Rightarrow> error + 'a heap" where
  "step_simoja alpha beta weights pre_filtered post_filtered delta h =
     bindE (np_mul (np_smul alpha (h post_filtered)) (h post_filtered)) (\<lambda>post_squared.
     bindE (np_newaxis1 post_squared) (\<lambda>col.
     bindE (np_mul (np_smul (- beta) (h weights)) col) (\<lambda>v.
     bindE (np_assign (h delta) v) (\<lambda>r.
     let h1 = h(delta := r) in
     bindE (np_outer (np_smul alpha (h1 post_filtered)) (h1 pre_filtered)) (\<lambda>w.
     bindE (np_iadd (h1 delta) w) (\<lambda>r'.
     Inr (h1(delta := r'))))))))"

definition make_step_simoja ::
  "('k, 'a::{times,plus,uminus}) SimOja \<Rightarrow> 'k sigdict \<Rightarrow> 'a
     \<Rightarrow> error + ('a heap \<Rightarrow> error + 'a heap)" where
  "make_step_simoja self signals dt =
     bindE (sig_lookup signals (oja_weights self)) (\<lambda>weights.
     bindE (sig_lookup signals (oja_pre_filtered self)) (\<lambda>pre_filtered.
     bindE (sig_lookup signals (oja_post_filtered self)) (\<lambda>post_filtered.
     bindE (sig_lookup signals (oja_delta self)) (\<lambda>delta.
     let alpha = oja_learning_rate self * dt;
         beta = oja_beta self in
     Inr (step_simoja alpha beta weights pre_filtered post_filtered delta)))))"

subsection \<open>SimVoja\<close>

text \<open>\<open>scale\<close> is an array of the operator itself, not a signal.\<close>

record ('k, 'a) SimVoja = "'k Operator" +
  voja_pre_decoded :: 'k
  voja_post_filtered :: 'k
  voja_scaled_encoders :: 'k
  voja_delta :: 'k
  voja_scale :: "'a ndarray"
  voja_learning_signal :: 'k
  voja_learning_rate :: 'a

definition SimVoja_init ::
  "'k \<Rightarrow> 'k \<Rightarrow> 'k \<Rightarrow> 'k \<Rightarrow> 'a ndarray \<Rightarrow> 'k \<Rightarrow> 'a \<Rightarrow> ('k, 'a) SimVoja" where
  "SimVoja_init pre_decoded post_filtered scaled_encoders delta scale learning_signal
       learning_rate =
     \<lparr>sets = [], incs = [],
      reads = [pre_decoded, post_filtered, scaled_encoders, learning_signal],
      updates = [delta],
      voja_pre_decoded = pre_decoded,
      voja_post_filtered = post_filtered,
      voja_scaled_encoders = scaled_encoders,
      voja_delta = delta,
      voja_scale = scale,
      voja_learning_signal = learning_signal,
      voja_learning_rate = learning_rate\<rparr>"

text \<open>
  \<^verbatim>\<open>
  delta[...] = alpha * learning_signal * (
      scale * np.outer(post_filtered, pre_decoded) -
      post_filtered[:, np.newaxis] * scaled_encoders)
  \<close>
  with \<open>scale = self.scale[:, np.newaxis]\<close> taken when the step function is made.
\<close>

definition step_simvoja ::
  "('a::{times,minus}) \<Rightarrow> 'a ndarray \<Rightarrow> nat \<Rightarrow> nat \<Rightarrow> nat \<Rightarrow> nat \<Rightarrow> nat \<Rightarrow> 'a heap
     \<Rightarrow> error + 'a heap" where
  "step_simvoja alpha scale pre_decoded post_filtered scaled_encoders delta learning_signal h =
     (let gate = np_smul alpha (h learning_signal) in
      bindE (np_outer (h post_filtered) (h pre_decoded)) (\<lambda>outer.
      bindE (np_mul scale outer) (\<lambda>towards.
      bindE (np_newaxis1 (h post_filtered)) (\<lambda>col.
      bindE (np_mul col (h scaled_encoders)) (\<lambda>away.
      bindE (np_sub towards away) (\<lambda>diff.
      bindE (np_mul gate diff) (\<lambda>v.
      bindE (np_assign (h delta) v) (\<lambda>r.
      Inr (h(delta := r))))))))))"

definition make_step_simvoja ::
  "('k, 'a::{times,minus}) SimVoja \<Rightarrow> 'k sigdict \<Rightarrow> 'a
     \<Rightarrow> error + ('a heap \<Rightarrow> error + 'a heap)" where
  "make_step_simvoja self signals dt =
     bindE (sig_lookup signals (voja_pre_decoded self)) (\<lambda>pre_decoded.
     bindE (sig_lookup signals (voja_post_filtered self)) (\<lambda>post_filtered.
     bindE (sig_lookup signals (voja_scaled_encoders self)) (\<lambda>scaled_encoders.
     bindE (sig_lookup signals (voja_delta self)) (\<lambda>delta.
     bindE (sig_lookup signals (voja_learning_signal self)) (\<lambda>learning_signal.
     let alpha = voja_learning_rate self * dt in
     bindE (np_newaxis1 (voja_scale self)) (\<lambda>scale.
     Inr (step_simvoja alpha scale pre_decoded post_filtered scaled_encoders delta
            learning_signal)))))))"

subsection \<open>What the claims say about a step\<close>

definition is_vector :: "nat \<Rightarrow> 'a ndarray \<Rightarrow> bool" where
  "is_vector n a = (shape a = [n] \<and> length (data a) = n)"

definition is_matrix :: "nat \<Rightarrow> nat \<Rightarrow> 'a ndarray \<Rightarrow> bool" where
  "is_matrix n p a = (shape a = [n, p] \<and> length (data a) = n * p)"

text \<open>A scalar signal: one element, held in a 0-d array or in an array of shape \<open>(1,)\<close>.\<close>

definition is_scalar :: "'a ndarray \<Rightarrow> bool" where
  "is_scalar a = ((shape a = [] \<or> shape a = [1]) \<and> length (data a) = 1)"

text \<open>The buffers that a list of signals stands for.\<close>

definition addresses :: "'k sigdict \<Rightarrow> 'k list \<Rightarrow> nat set" where
  "addresses signals ks = {a. \<exists>k \<in> set ks. signals k = Some a}"

definition agree_on :: "nat set \<Rightarrow> 'a heap \<Rightarrow> 'a heap \<Rightarrow> bool" where
  "agree_on A h1 h2 = (\<forall>a \<in> A. h1 a = h2 a)"

text \<open>Two runs of a step end alike on the buffers \<open>A\<close>: the same exception, or the same contents.\<close>

definition same_outcome :: "nat set \<Rightarrow> error + 'a heap \<Rightarrow> error + 'a heap \<Rightarrow> bool" where
  "same_outcome A r1 r2 =
     (case r1 of
        Inl e1 \<Rightarrow> (case r2 of Inl e2 \<Rightarrow> e1 = e2 | Inr _ \<Rightarrow> False)
      | Inr h1 \<Rightarrow> (case r2 of Inl _ \<Rightarrow> False | Inr h2 \<Rightarrow> agree_on A h1 h2))"

text \<open>
  The dependency contract of an operator, for the step function made from it: what the
  step does is determined by the buffers of \<open>reads\<close> and \<open>updates\<close>, and it leaves every
  buffer outside \<open>sets\<close>, \<open>incs\<close> and \<open>updates\<close> as it was.
\<close>

definition honors_contract ::
  "('k, 'z) Operator_scheme \<Rightarrow> 'k sigdict \<Rightarrow> ('a heap \<Rightarrow> error + 'a heap) \<Rightarrow> bool" where
  "honors_contract self signals step =
     ((\<forall>h1 h2. agree_on (addresses signals (reads self @ updates self)) h1 h2 \<longrightarrow>
          same_outcome (addresses signals (sets self @ incs self @ updates self))
            (step h1) (step h2))
    \<and> (\<forall>h h' a. step h = Inr h'
          \<and> a \<notin> addresses signals (sets self @ incs self @ updates self) \<longrightarrow> h' a = h a))"

text \<open>
  The step overwrites its \<open>updates\<close>: started on heaps that agree on the buffers of
  \<open>reads\<close> and hold arrays of the same shapes in the buffers of \<open>updates\<close>, a step that
  returns on one returns on the other, with the same contents in the buffers of \<open>updates\<close>.
\<close>

definition overwrites_updates ::
  "('k, 'z) Operator_scheme \<Rightarrow> 'k sigdict \<Rightarrow> ('a heap \<Rightarrow> error + 'a heap) \<Rightarrow> bool" where
  "overwrites_updates self signals step =
     (\<forall>h1 h2 h1'.
        agree_on (addresses signals (reads self)) h1 h2
        \<and> (\<forall>a \<in> addresses signals (updates self). shape (h1 a) = shape (h2 a))
        \<and> step h1 = Inr h1'
        \<longrightarrow> (\<exists>h2'. step h2 = Inr h2' \<and> agree_on (addresses signals (updates self)) h1' h2'))"

text \<open>The contents of one buffer after a step, or the exception of the step.\<close>

definition delta_of :: "nat \<Rightarrow> error + 'a heap \<Rightarrow> error + 'a ndarray" where
  "delta_of da r = (case r of Inl e \<Rightarrow> Inl e | Inr h \<Rightarrow> Inr (h da))"

section \<open>The objects of a network\<close>

text \<open>
  Modelled from the spec: the classes of the network objects, which this module imports.
  The builders read a few of their attributes: an ensemble's neuron count, dimensionality
  and radius, and the input width of an object. A neuron population belongs to an
  ensemble and is as wide as the ensemble has neurons; a node has an input width of its
  own, 0 for a node that only provides output.
\<close>

record ensemble =
  ens_label :: string
  n_neurons :: nat
  dimensions :: nat
  radius :: real

record node =
  node_label :: string
  node_size_in :: nat

datatype nengo_object = Ensemble ensemble | Neurons ensemble | Node node

text \<open>\<open>obj.size_in\<close>\<close>

fun size_in_of :: "nengo_object \<Rightarrow> nat" where
  "size_in_of (Ensemble e) = dimensions e"
| "size_in_of (Neurons e) = n_neurons e"
| "size_in_of (Node n) = node_size_in n"

text \<open>\<open>obj.n_neurons\<close>, \<open>obj.dimensions\<close>, \<open>obj.neurons\<close>, \<open>obj.radius\<close>: attributes of an ensemble only.\<close>

fun n_neurons_of :: "nengo_object \<Rightarrow> error + nat" where
  "n_neurons_of (Ensemble e) = Inr (n_neurons e)"
| "n_neurons_of _ = Inl (AttributeError ''n_neurons'')"

fun dimensions_of :: "nengo_object \<Rightarrow> error + nat" where
  "dimensions_of (Ensemble e) = Inr (dimensions e)"
| "dimensions_of _ = Inl (AttributeError ''dimensions'')"

fun neurons_of :: "nengo_object \<Rightarrow> error + nengo_object" where
  "neurons_of (Ensemble e) = Inr (Neurons e)"
| "neurons_of _ = Inl (AttributeError ''neurons'')"

fun radius_of :: "nengo_object \<Rightarrow> error + real" where
  "radius_of (Ensemble e) = Inr (radius e)"
| "radius_of _ = Inl (AttributeError ''radius'')"

record connection =
  pre_obj :: nengo_object
  post_obj :: nengo_object
  is_factored :: bool

record BCM =
  BCM_pre_tau :: real
  BCM_post_tau :: real
  BCM_theta_tau :: real
  BCM_learning_rate :: real

record Oja =
  Oja_pre_tau :: real
  Oja_post_tau :: real
  Oja_beta :: real
  Oja_learning_rate :: real

record Voja =
  Voja_post_tau :: "real option"
  Voja_learning_rate :: real

record PES =
  PES_pre_tau :: real
  PES_learning_rate :: real

datatype learning_rule_type = RuleBCM BCM | RuleOja Oja | RuleVoja Voja | RulePES PES

record learning_rule =
  connection :: connection
  learning_rule_type :: learning_rule_type
  modifies :: string
  size_in :: nat

section \<open>Signals, operators and the model\<close>

text \<open>
  Modelled from the spec: the \<open>Signal\<close> class, the generic operator classes and the
  \<open>Model\<close>, which this module imports.
  A \<open>Signal\<close> is an object: two signals made from equal values under one name are two
  signals. The model counts the signals made so far and the count names the next one.
  \<open>Row\<close> and \<open>Column\<close> are the views that \<open>signal.row()\<close> and \<open>signal.column()\<close> return.
\<close>

datatype signal =
    Signal (sig_id: nat) (sig_name: string) (sig_value: "real ndarray")
  | Row signal
  | Column signal

fun sig_shape :: "signal \<Rightarrow> nat list" where
  "sig_shape (Signal i n v) = shape v"
| "sig_shape (Row s) = [1, prod_list (sig_shape s)]"
| "sig_shape (Column s) = [prod_list (sig_shape s), 1]"

text \<open>
  The operators that the builders make. \<open>Reset\<close>, \<open>DotInc\<close> and \<open>ElementwiseInc\<close> are made
  with the arguments of their calls: \<open>Reset(dst, value)\<close>, \<open>DotInc(A, X, Y, tag)\<close>,
  \<open>ElementwiseInc(A, X, Y, tag)\<close>. \<open>Filter\<close> stands for what the build of a low-pass
  synapse registers.
\<close>

datatype model_operator =
    OpSimBCM "(signal, real) SimBCM"
  | OpSimOja "(signal, real) SimOja"
  | OpSimVoja "(signal, real) SimVoja"
  | Reset signal real
  | DotInc signal signal signal string
  | ElementwiseInc signal signal signal string
  | Filter real signal signal

text \<open>The keys of \<open>model.sig\<close> and \<open>model.params\<close>, and the names under a key.\<close>

datatype key = ObjKey nengo_object | ConnKey connection | RuleKey learning_rule | CommonKey

datatype name = Name string | Number int

datatype param = NoParams | BuiltEnsemble (gain: "real ndarray")

record model =
  sig :: "key \<times> name \<rightharpoonup> signal"
  operators :: "model_operator list"
  params :: "key \<rightharpoonup> param"
  dt :: real
  n_signals :: nat

text \<open>\<open>Signal(value, name=name)\<close>\<close>

definition new_signal :: "model \<Rightarrow> real ndarray \<Rightarrow> string \<Rightarrow> signal \<times> model" where
  "new_signal m v n = (Signal (n_signals m) n v, m\<lparr>n_signals := Suc (n_signals m)\<rparr>)"

text \<open>\<open>model.sig[k][n]\<close> read and written, \<open>model.params[k]\<close> read and written.\<close>

definition sig_get :: "model \<Rightarrow> key \<Rightarrow> name \<Rightarrow> error + signal" where
  "sig_get m k n =
     (case sig m (k, n) of None \<Rightarrow> Inl (KeyError ''sig'') | Some s \<Rightarrow> Inr s)"

definition sig_set :: "model \<Rightarrow> key \<Rightarrow> name \<Rightarrow> signal \<Rightarrow> model" where
  "sig_set m k n s = m\<lparr>sig := (sig m)((k, n) \<mapsto> s)\<rparr>"

definition params_get :: "model \<Rightarrow> key \<Rightarrow> error + param" where
  "params_get m k =
     (case params m k of None \<Rightarrow> Inl (KeyError ''params'') | Some p \<Rightarrow> Inr p)"

definition params_set :: "model \<Rightarrow> key \<Rightarrow> param \<Rightarrow> model" where
  "params_set m k p = m\<lparr>params := (params m)(k \<mapsto> p)\<rparr>"

text \<open>\<open>model.params[post].gain\<close>: \<open>None\<close> has no gain.\<close>

fun gain_of :: "param \<Rightarrow> error + real ndarray" where
  "gain_of (BuiltEnsemble g) = Inr g"
| "gain_of NoParams = Inl (AttributeError ''gain'')"

text \<open>
  The rest of the model layer is not part of this module and is a parameter of the
  builders: \<open>model.add_op(op)\<close>, and \<open>model.build(Lowpass(tau), signal)\<close>, which returns
  the signal of the filtered output.
\<close>

record env =
  add_op :: "model_operator \<Rightarrow> model \<Rightarrow> error + model"
  build_lowpass :: "real \<Rightarrow> signal \<Rightarrow> model \<Rightarrow> error + signal \<times> model"

text \<open>
  Modelled from the spec: \<open>model.add_op\<close> and the build of a low-pass filter, which this
  module calls and does not define. \<open>add_op\<close> registers the operator; the filter build
  makes the signal of the filtered output, of the shape of its input, and registers,
  through \<open>add_op\<close>, the operator that fills it.
\<close>

definition spec_add_op :: "model_operator \<Rightarrow> model \<Rightarrow> error + model" where
  "spec_add_op op m = Inr (m\<lparr>operators := operators m @ [op]\<rparr>)"

definition spec_build_lowpass ::
  "(model_operator \<Rightarrow> model \<Rightarrow> error + model) \<Rightarrow> real \<Rightarrow> signal \<Rightarrow> model
     \<Rightarrow> error + signal \<times> model" where
  "spec_build_lowpass add tau s m =
     (let (out, m1) = new_signal m (np_zeros (sig_shape s)) ''filtered'' in
      bindE (add (Filter tau s out) m1) (\<lambda>m2. Inr (out, m2)))"

definition spec_env :: env where
  "spec_env = \<lparr>add_op = spec_add_op, build_lowpass = spec_build_lowpass spec_add_op\<rparr>"

text \<open>
  An \<open>add_op\<close> that registers nothing, to tell the operators that reach
  \<open>model.operators\<close> through \<open>add_op\<close> from those that are put there.
\<close>

definition drop_add_op :: "model_operator \<Rightarrow> model \<Rightarrow> error + model" where
  "drop_add_op op m = Inr m"

definition drop_env :: env where
  "drop_env = \<lparr>add_op = drop_add_op, build_lowpass = spec_build_lowpass drop_add_op\<rparr>"

text \<open>
  A Python float divided by an integer; the quotient of a division by zero is an
  exception.
\<close>

definition py_truediv :: "real \<Rightarrow> nat \<Rightarrow> error + real" where
  "py_truediv x n = (if n = 0 then Inl ZeroDivisionError else Inr (x / real n))"

text \<open>\<open>t[0]\<close> of a shape.\<close>

definition shape0 :: "nat list \<Rightarrow> error + nat" where
  "shape0 s = (case s of [] \<Rightarrow> Inl (IndexError ''tuple index out of range'') | d # _ \<Rightarrow> Inr d)"

text \<open>An array divided by a Python float, element by element.\<close>

definition np_sdiv :: "real ndarray \<Rightarrow> real \<Rightarrow> real ndarray" where
  "np_sdiv a c = \<lparr>shape = shape a, data = map (\<lambda>x. x / c) (data a)\<rparr>"

text \<open>A Python float as an array: no axes, one element.\<close>

definition np_scalar :: "'a \<Rightarrow> 'a ndarray" where
  "np_scalar x = \<lparr>shape = [], data = [x]\<rparr>"

section \<open>The builders\<close>

definition get_pre_ens :: "connection \<Rightarrow> error + ensemble" where
  "get_pre_ens conn =
     (case pre_obj conn of
        Ensemble e \<Rightarrow> Inr e
      | Neurons e \<Rightarrow> Inr e
      | Node n \<Rightarrow> Inl (AttributeError ''ensemble''))"

definition get_post_ens :: "connection \<Rightarrow> error + nengo_object" where
  "get_post_ens conn =
     (case post_obj conn of
        Ensemble e \<Rightarrow> Inr (Ensemble e)
      | Node n \<Rightarrow> Inr (Node n)
      | Neurons e \<Rightarrow> Inr (Ensemble e))"

subsection \<open>build_bcm\<close>

definition build_bcm :: "env \<Rightarrow> model \<Rightarrow> BCM \<Rightarrow> learning_rule \<Rightarrow> error + model" where
  "build_bcm ext m bcm rule =
     (let conn = connection rule in
      bindE (get_pre_ens conn) (\<lambda>pre.
      bindE (sig_get m (ObjKey (Neurons pre)) (Name ''out'')) (\<lambda>pre_activities.
      bindE (build_lowpass ext (BCM_pre_tau bcm) pre_activities m) (\<lambda>(pre_filtered, m).
      bindE (get_post_ens conn) (\<lambda>post.
      bindE (neurons_of post) (\<lambda>post_neurons.
      bindE (sig_get m (ObjKey post_neurons) (Name ''out'')) (\<lambda>post_activities.
      bindE (build_lowpass ext (BCM_post_tau bcm) post_activities m) (\<lambda>(post_filtered, m).
      bindE (build_lowpass ext (BCM_theta_tau bcm) post_filtered m) (\<lambda>(theta, m).
      bindE (sig_get m (RuleKey rule) (Name ''delta'')) (\<lambda>delta.
      bindE (add_op ext
               (OpSimBCM (SimBCM_init pre_filtered post_filtered theta delta
                            (BCM_learning_rate bcm) None)) m) (\<lambda>m.
      let m = sig_set m (RuleKey rule) (Name ''theta'') theta;
          m = sig_set m (RuleKey rule) (Name ''pre_filtered'') pre_filtered;
          m = sig_set m (RuleKey rule) (Name ''post_filtered'') post_filtered;
          m = params_set m (RuleKey rule) NoParams
      in Inr m)))))))))))"

subsection \<open>build_oja\<close>

definition build_oja :: "env \<Rightarrow> model \<Rightarrow> Oja \<Rightarrow> learning_rule \<Rightarrow> error + model" where
  "build_oja ext m oja rule =
     (let conn = connection rule in
      bindE (get_pre_ens conn) (\<lambda>pre.
      bindE (sig_get m (ObjKey (Neurons pre)) (Name ''out'')) (\<lambda>pre_activities.
      bindE (get_post_ens conn) (\<lambda>post.
      bindE (neurons_of post) (\<lambda>post_neurons.
      bindE (sig_get m (ObjKey post_neurons) (Name ''out'')) (\<lambda>post_activities.
      bindE (build_lowpass ext (Oja_pre_tau oja) pre_activities m) (\<lambda>(pre_filtered, m).
      bindE (build_lowpass ext (Oja_post_tau oja) post_activities m) (\<lambda>(post_filtered, m).
      bindE (sig_get m (ConnKey conn) (Name ''weights'')) (\<lambda>weights.
      bindE (sig_get m (RuleKey rule) (Name ''delta'')) (\<lambda>delta.
      bindE (add_op ext
               (OpSimOja (SimOja_init pre_filtered post_filtered weights delta
                            (Oja_learning_rate oja) (Oja_beta oja) None)) m) (\<lambda>m.
      let m = sig_set m (RuleKey rule) (Name ''pre_filtered'') pre_filtered;
          m = sig_set m (RuleKey rule) (Name ''post_filtered'') post_filtered;
          m = params_set m (RuleKey rule) NoParams
      in Inr m)))))))))))"

subsection \<open>build_voja\<close>

text \<open>
  The operator is appended to \<open>model.operators\<close>; \<open>add_op\<close> is called for the \<open>Reset\<close> of
  the learning signal only. The radius of an ensemble is positive; numpy divides by a
  zero radius without raising and the quotient has no value in the reals.
\<close>

definition build_voja :: "env \<Rightarrow> model \<Rightarrow> Voja \<Rightarrow> learning_rule \<Rightarrow> error + model" where
  "build_voja ext m voja rule =
     (let conn = connection rule;
          post = post_obj conn in
      bindE (case Voja_post_tau voja of
               Some tau \<Rightarrow>
                 bindE (sig_get m (ObjKey post) (Name ''out'')) (\<lambda>out.
                 build_lowpass ext tau out m)
             | None \<Rightarrow>
                 bindE (sig_get m (ObjKey post) (Name ''out'')) (\<lambda>out. Inr (out, m)))
        (\<lambda>(post_filtered, m).
      let (learning, m) = new_signal m (np_zeros [size_in rule]) ''Voja:learning'' in
      if size_in rule \<noteq> 1 then Inl AssertionError else
      bindE (add_op ext (Reset learning 1) m) (\<lambda>m.
      let m = sig_set m (RuleKey rule) (Name ''in'') learning in
      bindE (sig_get m (ObjKey post) (Name ''encoders'')) (\<lambda>scaled_encoders.
      bindE (params_get m (ObjKey post)) (\<lambda>built.
      bindE (gain_of built) (\<lambda>gain.
      bindE (radius_of post) (\<lambda>radius.
      let encoder_scale = np_sdiv gain radius in
      if sig_shape post_filtered \<noteq> shape encoder_scale then Inl AssertionError else
      bindE (sig_get m (ConnKey conn) (Name ''out'')) (\<lambda>pre_decoded.
      bindE (sig_get m (RuleKey rule) (Name ''delta'')) (\<lambda>delta.
      let m = m\<lparr>operators := operators m @
                 [OpSimVoja (SimVoja_init pre_decoded post_filtered scaled_encoders delta
                              encoder_scale learning (Voja_learning_rate voja))]\<rparr>;
          m = sig_set m (RuleKey rule) (Name ''scaled_encoders'') scaled_encoders;
          m = sig_set m (RuleKey rule) (Name ''post_filtered'') post_filtered;
          m = params_set m (RuleKey rule) NoParams
      in Inr m)))))))))"

subsection \<open>build_pes\<close>

text \<open>
  The function in the order of its lines: the error input, the filtered activities, the
  correction, the local error, the delta.
\<close>

definition pes_error :: "env \<Rightarrow> model \<Rightarrow> learning_rule \<Rightarrow> error + signal \<times> model" where
  "pes_error ext m rule =
     (let (err, m) = new_signal m (np_zeros [size_in rule]) ''PES:error'' in
      bindE (add_op ext (Reset err 0) m) (\<lambda>m.
      Inr (err, sig_set m (RuleKey rule) (Name ''in'') err)))"

definition pes_activities :: "env \<Rightarrow> model \<Rightarrow> PES \<Rightarrow> connection \<Rightarrow> error + signal \<times> model" where
  "pes_activities ext m pes conn =
     bindE (sig_get m (ObjKey (pre_obj conn)) (Name ''out'')) (\<lambda>out.
     bindE (build_lowpass ext (PES_pre_tau pes) out m) (\<lambda>(acts, m).
     let acts_view = Row acts in
     Inr (acts, m)))"

text \<open>\<open>n_neurons\<close> of the correction: the neuron count of an ensemble, else the input width.\<close>

definition pes_n_neurons :: "connection \<Rightarrow> nat" where
  "pes_n_neurons conn =
     (case pre_obj conn of Ensemble e \<Rightarrow> n_neurons e | other \<Rightarrow> size_in_of other)"

definition pes_correction ::
  "env \<Rightarrow> model \<Rightarrow> PES \<Rightarrow> connection \<Rightarrow> signal \<Rightarrow> error + signal \<times> model" where
  "pes_correction ext m pes conn err =
     (let (correction, m) = new_signal m (np_zeros (sig_shape err)) ''PES:correction'' in
      bindE (add_op ext (Reset correction 0) m) (\<lambda>m.
      let n_neurons = pes_n_neurons conn in
      bindE (py_truediv (- PES_learning_rate pes * dt m) n_neurons) (\<lambda>rate.
      let (lr_sig, m) = new_signal m (np_scalar rate) ''PES:learning_rate'' in
      bindE (add_op ext (DotInc lr_sig err correction ''PES:correct'') m) (\<lambda>m.
      Inr (correction, m)))))"

definition unsuitable_pre :: error where
  "unsuitable_pre = ValueError ''pre object not suitable for PES learning''"

definition pes_local_error ::
  "env \<Rightarrow> model \<Rightarrow> connection \<Rightarrow> signal \<Rightarrow> error + signal \<times> model" where
  "pes_local_error ext m conn correction =
     (if \<not> is_factored conn then
        bindE (get_post_ens conn) (\<lambda>post.
        bindE (sig_get m (ConnKey conn) (Name ''weights'')) (\<lambda>weights.
        bindE (sig_get m (ObjKey post) (Name ''encoders'')) (\<lambda>encoders.
        bindE (shape0 (sig_shape weights)) (\<lambda>rows.
        let (encoded, m) = new_signal m (np_zeros [rows]) ''PES:encoded'' in
        bindE (add_op ext (Reset encoded 0) m) (\<lambda>m.
        bindE (add_op ext (DotInc encoders correction encoded ''PES:encode'') m) (\<lambda>m.
        Inr (encoded, m)))))))
      else
        (case pre_obj conn of
           Ensemble e \<Rightarrow> Inr (correction, m)
         | Neurons e \<Rightarrow> Inr (correction, m)
         | Node n \<Rightarrow> Inl unsuitable_pre))"

definition pes_delta ::
  "env \<Rightarrow> model \<Rightarrow> learning_rule \<Rightarrow> signal \<Rightarrow> signal \<Rightarrow> signal \<Rightarrow> signal
     \<Rightarrow> error + model" where
  "pes_delta ext m rule err acts correction local_error =
     bindE (sig_get m (RuleKey rule) (Name ''delta'')) (\<lambda>delta.
     bindE (add_op ext (Reset delta 0) m) (\<lambda>m.
     bindE (sig_get m (RuleKey rule) (Name ''delta'')) (\<lambda>delta.
     bindE (add_op ext
              (ElementwiseInc (Column local_error) (Row acts) delta ''PES:Inc Delta'') m) (\<lambda>m.
     let m = sig_set m (RuleKey rule) (Name ''error'') err;
         m = sig_set m (RuleKey rule) (Name ''correction'') correction;
         m = sig_set m (RuleKey rule) (Name ''activities'') acts;
         m = params_set m (RuleKey rule) NoParams
     in Inr m))))"

definition build_pes :: "env \<Rightarrow> model \<Rightarrow> PES \<Rightarrow> learning_rule \<Rightarrow> error + model" where
  "build_pes ext m pes rule =
     (let conn = connection rule in
      bindE (pes_error ext m rule) (\<lambda>(err, m).
      bindE (pes_activities ext m pes conn) (\<lambda>(acts, m).
      bindE (pes_correction ext m pes conn err) (\<lambda>(correction, m).
      bindE (pes_local_error ext m conn correction) (\<lambda>(local_error, m).
      pes_delta ext m rule err acts correction local_error)))))"

subsection \<open>build_learning_rule\<close>

text \<open>
  Modelled from the spec: the dispatch of \<open>model.build(rule.learning_rule_type, rule)\<close>,
  which calls the builder registered for the type of the rule.
\<close>

definition build_rule_type ::
  "env \<Rightarrow> model \<Rightarrow> learning_rule_type \<Rightarrow> learning_rule \<Rightarrow> error + model" where
  "build_rule_type ext m t rule =
     (case t of
        RuleBCM bcm \<Rightarrow> build_bcm ext m bcm rule
      | RuleOja oja \<Rightarrow> build_oja ext m oja rule
      | RuleVoja voja \<Rightarrow> build_voja ext m voja rule
      | RulePES pes \<Rightarrow> build_pes ext m pes rule)"

definition unfactored_encoders :: error where
  "unfactored_encoders =
     ValueError ''Cannot perform encoder learning on an unfactored connection''"

definition unknown_target :: "string \<Rightarrow> error" where
  "unknown_target t = ValueError (''Unknown target '' @ t)"

text \<open>
  The delta signal, its target and the tag (``Set up delta signal''). On an unfactored
  connection the encoders branch makes the exception and goes on: the statement is
  \<open>ValueError(...)\<close>, without \<open>raise\<close>.
\<close>

definition setup_delta ::
  "model \<Rightarrow> learning_rule \<Rightarrow> error + (signal \<times> signal \<times> string) \<times> model" where
  "setup_delta m rule =
     (let conn = connection rule in
      if modifies rule = ''encoders'' then
        (let made = (if \<not> is_factored conn then [unfactored_encoders] else []) in
         bindE (get_post_ens conn) (\<lambda>post.
         bindE (sig_get m (ObjKey post) (Name ''encoders'')) (\<lambda>target.
         let tag = ''encoders += delta'' in
         bindE (n_neurons_of post) (\<lambda>post_n.
         bindE (dimensions_of post) (\<lambda>post_d.
         let (delta, m) = new_signal m (np_zeros [post_n, post_d]) ''Delta'' in
         Inr ((delta, target, tag), m))))))
      else if modifies rule = ''decoders'' \<or> modifies rule = ''weights'' then
        bindE (get_pre_ens conn) (\<lambda>pre.
        bindE (sig_get m (ConnKey conn) (Name ''weights'')) (\<lambda>target.
        let tag = ''weights += delta'' in
        if \<not> is_factored conn then
          bindE (get_post_ens conn) (\<lambda>post.
          bindE (n_neurons_of post) (\<lambda>post_n.
          let (delta, m) = new_signal m (np_zeros [post_n, n_neurons pre]) ''Delta'' in
          Inr ((delta, target, tag), m)))
        else
          (let (delta, m) = new_signal m (np_zeros [size_in rule, n_neurons pre]) ''Delta'' in
           Inr ((delta, target, tag), m))))
      else Inl (unknown_target (modifies rule)))"

definition build_learning_rule :: "env \<Rightarrow> model \<Rightarrow> learning_rule \<Rightarrow> error + model" where
  "build_learning_rule ext m rule =
     bindE (setup_delta m rule) (\<lambda>((delta, target, tag), m).
     if sig_shape delta \<noteq> sig_shape target then Inl AssertionError else
     bindE (sig_get m CommonKey (Number 1)) (\<lambda>one.
     bindE (add_op ext (ElementwiseInc one delta target tag) m) (\<lambda>m.
     let m = sig_set m (RuleKey rule) (Name ''delta'') delta in
     build_rule_type ext m (learning_rule_type rule) rule)))"

section \<open>A small network\<close>

text \<open>
  Two ensembles, of 3 and of 5 neurons in 2 dimensions, a node without input, and a model
  that holds the signals the builders look up for a connection between them. The model
  is built with a step of one millisecond.
\<close>

definition ex_pre :: ensemble where
  "ex_pre = \<lparr>ens_label = ''pre'', n_neurons = 3, dimensions = 2, radius = 1\<rparr>"

definition ex_post :: ensemble where
  "ex_post = \<lparr>ens_label = ''post'', n_neurons = 5, dimensions = 2, radius = 1\<rparr>"

definition ex_node :: node where
  "ex_node = \<lparr>node_label = ''stimulus'', node_size_in = 0\<rparr>"

definition ex_model :: "connection \<Rightarrow> nat list \<Rightarrow> model" where
  "ex_model conn weights_shape =
     \<lparr>sig = [(CommonKey, Number 1) \<mapsto> Signal 0 ''ONE'' (np_scalar 1),
             (ObjKey (Neurons ex_pre), Name ''out'') \<mapsto> Signal 1 ''pre.out'' (np_zeros [3]),
             (ObjKey (Ensemble ex_pre), Name ''out'') \<mapsto> Signal 1 ''pre.out'' (np_zeros [3]),
             (ObjKey (Neurons ex_post), Name ''out'') \<mapsto> Signal 2 ''post.out'' (np_zeros [5]),
             (ObjKey (Ensemble ex_post), Name ''out'') \<mapsto> Signal 2 ''post.out'' (np_zeros [5]),
             (ObjKey (Ensemble ex_post), Name ''encoders'') \<mapsto>
                Signal 3 ''post.encoders'' (np_zeros [5, 2]),
             (ObjKey (Node ex_node), Name ''out'') \<mapsto> Signal 4 ''stimulus.out'' (np_zeros [2]),
             (ConnKey conn, Name ''weights'') \<mapsto> Signal 5 ''weights'' (np_zeros weights_shape),
             (ConnKey conn, Name ''out'') \<mapsto> Signal 6 ''conn.out'' (np_zeros [2])],
      operators = [],
      params = [ObjKey (Ensemble ex_post) \<mapsto> BuiltEnsemble \<lparr>shape = [5], data = [2, 2, 2, 2, 2]\<rparr>],
      dt = 1 / 1000,
      n_signals = 7\<rparr>"

section \<open>The steps of the generic operators\<close>

text \<open>
  Modelled from the spec: the steps of \<open>Reset\<close> and \<open>DotInc\<close>, which this module makes and
  does not define. \<open>Reset(dst, value)\<close> writes the value to every element of \<open>dst\<close>;
  \<open>DotInc(A, X, Y)\<close> is the accumulate-multiply \<open>Y[...] += np.dot(A, X)\<close>. \<open>np.dot\<close> with a
  0-d argument is the elementwise product; else it sums over the last axis of its first
  argument and the last axis but one of its second (the only axis of a vector).
\<close>

definition np_dot :: "real ndarray \<Rightarrow> real ndarray \<Rightarrow> error + real ndarray" where
  "np_dot a b =
     (if shape a = [] \<or> shape b = [] then np_mul a b
      else
        (let d = last (shape a);
             pa = butlast (shape a)
         in case rev (shape b) of
              [] \<Rightarrow> np_mul a b
            | [d'] \<Rightarrow>
                if d = d' then
                  Inr \<lparr>shape = pa,
                       data = map (\<lambda>i. sum_list (map (\<lambda>t. data a ! (i * d + t) * data b ! t) [0..<d]))
                                [0..<prod_list pa]\<rparr>
                else Inl (ValueError ''shapes not aligned'')
            | q # d' # rpb \<Rightarrow>
                if d = d' then
                  (let pb = rev rpb in
                   Inr \<lparr>shape = pa @ pb @ [q],
                        data = map (\<lambda>k. sum_list (map (\<lambda>t.
                                        data a ! ((k div (q * prod_list pb)) * d + t)
                                        * data b ! ((((k div q) mod prod_list pb) * d + t) * q + k mod q))
                                      [0..<d]))
                                 [0..<prod_list pa * prod_list pb * q]\<rparr>)
                else Inl (ValueError ''shapes not aligned'')))"

definition step_reset :: "real \<Rightarrow> nat \<Rightarrow> real heap \<Rightarrow> error + real heap" where
  "step_reset v dst h = bindE (np_assign (h dst) (np_scalar v)) (\<lambda>r. Inr (h(dst := r)))"

definition step_dotinc :: "nat \<Rightarrow> nat \<Rightarrow> nat \<Rightarrow> real heap \<Rightarrow> error + real heap" where
  "step_dotinc A X Y h =
     bindE (np_dot (h A) (h X)) (\<lambda>inc.
     bindE (np_iadd (h Y) inc) (\<lambda>r.
     Inr (h(Y := r))))"

section \<open>Model layers\<close>


definition registers_by_append :: "env \<Rightarrow> bool" where
  "registers_by_append ext =
     ((\<forall>op m. add_op ext op m = spec_add_op op m)
    \<and> (\<forall>tau s m s' m'. build_lowpass ext tau s m = Inr (s', m') \<longrightarrow> dt m' = dt m))"

section \<open>The values of float64\<close>

text \<open>
  The arrays of the simulator hold IEEE doubles. The type \<open>fl\<close> has their special values:
  a finite number, the two infinities, and not-a-number. A finite result beyond the
  largest double overflows to an infinity; below that bound the finite results are the
  exact ones (rounding is not modelled), and the two zeros are one value, as they are
  equal in a comparison.
\<close>

datatype fl = Finite real | PosInf | NegInf | NaN

definition max_float :: real where
  "max_float = (2 ^ 53 - 1) * 2 ^ 971"

definition fl_of :: "real \<Rightarrow> fl" where
  "fl_of r = (if max_float < r then PosInf else if r < - max_float then NegInf else Finite r)"

fun fl_neg :: "fl \<Rightarrow> fl" where
  "fl_neg (Finite a) = Finite (- a)"
| "fl_neg PosInf = NegInf"
| "fl_neg NegInf = PosInf"
| "fl_neg NaN = NaN"

text \<open>An infinity times a number: not-a-number for zero, else the infinity of the sign.\<close>

definition inf_times :: "bool \<Rightarrow> real \<Rightarrow> fl" where
  "inf_times positive a =
     (if a = 0 then NaN else if (0 < a) = positive then PosInf else NegInf)"

fun fl_mul :: "fl \<Rightarrow> fl \<Rightarrow> fl" where
  "fl_mul NaN y = NaN"
| "fl_mul x NaN = NaN"
| "fl_mul (Finite a) (Finite b) = fl_of (a * b)"
| "fl_mul (Finite a) PosInf = inf_times True a"
| "fl_mul (Finite a) NegInf = inf_times False a"
| "fl_mul PosInf (Finite b) = inf_times True b"
| "fl_mul NegInf (Finite b) = inf_times False b"
| "fl_mul PosInf PosInf = PosInf"
| "fl_mul PosInf NegInf = NegInf"
| "fl_mul NegInf PosInf = NegInf"
| "fl_mul NegInf NegInf = PosInf"

fun fl_add :: "fl \<Rightarrow> fl \<Rightarrow> fl" where
  "fl_add NaN y = NaN"
| "fl_add x NaN = NaN"
| "fl_add (Finite a) (Finite b) = fl_of (a + b)"
| "fl_add (Finite a) PosInf = PosInf"
| "fl_add (Finite a) NegInf = NegInf"
| "fl_add PosInf (Finite b) = PosInf"
| "fl_add NegInf (Finite b) = NegInf"
| "fl_add PosInf PosInf = PosInf"
| "fl_add PosInf NegInf = NaN"
| "fl_add NegInf PosInf = NaN"
| "fl_add NegInf NegInf = NegInf"

instantiation fl :: "{zero, times, plus, minus, uminus}"
begin

definition zero_fl :: fl where
  "zero_fl = Finite 0"

definition times_fl :: "fl \<Rightarrow> fl \<Rightarrow> fl" where
  "times_fl x y = fl_mul x y"

definition plus_fl :: "fl \<Rightarrow> fl \<Rightarrow> fl" where
  "plus_fl x y = fl_add x y"

definition uminus_fl :: "fl \<Rightarrow> fl" where
  "uminus_fl x = fl_neg x"

definition minus_fl :: "fl \<Rightarrow> fl \<Rightarrow> fl" where
  "minus_fl x y = fl_add x (fl_neg y)"

instance ..

end

text \<open>A double that is a number: finite and within the range.\<close>

definition is_finite :: "fl \<Rightarrow> bool" where
  "is_finite x = (case x of Finite a \<Rightarrow> \<bar>a\<bar> \<le> max_float | _ \<Rightarrow> False)"

section \<open>Facts about the array operations\<close>

lemma bindE_simps [simp]: "bindE (Inr x) f = f x" "bindE (Inl e) f = Inl e"
  by (simp_all add: bindE_def)

lemma bindE_Inr_iff: "bindE m f = Inr y \<longleftrightarrow> (\<exists>x. m = Inr x \<and> f x = Inr y)"
  by (cases m) simp_all

lemma map2_upt: "map2 f (map g [0..<n]) (map h [0..<n]) = map (\<lambda>k. f (g k) (h k)) [0..<n]"
  by (induction n) simp_all

lemma flat_index_less: "i < n \<Longrightarrow> j < p \<Longrightarrow> i * p + j < n * (p::nat)"
proof -
  assume a: "i < n" "j < p"
  then have "i * p + j < i * p + p" by simp
  also have "\<dots> = Suc i * p" by simp
  also have "\<dots> \<le> n * p" using a(1) by (intro mult_le_mono1) simp
  finally show ?thesis .
qed

lemma flat_index_div: "j < p \<Longrightarrow> (i * p + j) div p = (i::nat)"
  by simp

lemma flat_index_mod: "j < p \<Longrightarrow> (i * p + j) mod p = (j::nat)"
  by simp

lemma bc_index_vec: "k < n \<Longrightarrow> bc_index [n] [n] k = k"
  by simp

lemma bc_index_mat: "k < n * p \<Longrightarrow> bc_index [n, p] [n, p] k = k"
  by (auto simp: div_mult_mod_eq)

lemma bc_index_col: "k < n * p \<Longrightarrow> bc_index [n, 1] [n, p] k = k div p"
  by auto

lemma bc_index_row: "k < n * p \<Longrightarrow> bc_index [1, p] [n, p] k = k mod p"
  by auto

lemma bc_index_one: "bc_index [1, 1] [n, p] k = 0"
  by simp

lemma broadcast_data_eq:
  assumes "\<And>k. k < prod_list r \<Longrightarrow> bc_index (pad_shape (length r) (shape a)) r k = g k"
  shows "broadcast_data a r = map (\<lambda>k. data a ! g k) [0..<prod_list r]"
  using assms by (simp add: broadcast_data_def)

lemma np_binop_vec_vec:
  assumes "shape a = [n]" "shape b = [n]"
  shows "np_binop f a b = Inr \<lparr>shape = [n], data = map (\<lambda>k. f (data a ! k) (data b ! k)) [0..<n]\<rparr>"
  using assms by (simp add: np_binop_def broadcast_shapes_def broadcast_data_def pad_shape_def map2_upt)

lemma np_binop_col_row:
  assumes "shape a = [n, 1]" "shape b = [1, p]"
  shows "np_binop f a b =
    Inr \<lparr>shape = [n, p], data = map (\<lambda>k. f (data a ! (k div p)) (data b ! (k mod p))) [0..<n * p]\<rparr>"
proof -
  have s: "broadcast_shapes [n, 1] [1, p] = Some [n, p]"
    by (simp add: broadcast_shapes_def)
  have a: "broadcast_data a [n, p] = map (\<lambda>k. data a ! (k div p)) [0..<n * p]"
    using broadcast_data_eq [of "[n, p]" a "\<lambda>k. k div p"] assms(1) bc_index_col [of _ n p]
    by (simp add: pad_shape_def)
  have b: "broadcast_data b [n, p] = map (\<lambda>k. data b ! (k mod p)) [0..<n * p]"
    using broadcast_data_eq [of "[n, p]" b "\<lambda>k. k mod p"] assms(2) bc_index_row [of _ n p]
    by (simp add: pad_shape_def)
  show ?thesis
    using s by (simp add: np_binop_def assms a b map2_upt)
qed

lemma np_binop_mat_col:
  assumes "shape a = [n, p]" "shape b = [n, 1]"
  shows "np_binop f a b =
    Inr \<lparr>shape = [n, p], data = map (\<lambda>k. f (data a ! k) (data b ! (k div p))) [0..<n * p]\<rparr>"
proof -
  have s: "broadcast_shapes [n, p] [n, 1] = Some [n, p]"
    by (simp add: broadcast_shapes_def)
  have a: "broadcast_data a [n, p] = map (\<lambda>k. data a ! k) [0..<n * p]"
    using broadcast_data_eq [of "[n, p]" a "\<lambda>k. k"] assms(1) bc_index_mat [of _ n p]
    by (simp add: pad_shape_def)
  have b: "broadcast_data b [n, p] = map (\<lambda>k. data b ! (k div p)) [0..<n * p]"
    using broadcast_data_eq [of "[n, p]" b "\<lambda>k. k div p"] assms(2) bc_index_col [of _ n p]
    by (simp add: pad_shape_def)
  show ?thesis
    using s by (simp add: np_binop_def assms a b map2_upt)
qed

lemma np_binop_col_mat:
  assumes "shape a = [n, 1]" "shape b = [n, p]"
  shows "np_binop f a b =
    Inr \<lparr>shape = [n, p], data = map (\<lambda>k. f (data a ! (k div p)) (data b ! k)) [0..<n * p]\<rparr>"
proof -
  have s: "broadcast_shapes [n, 1] [n, p] = Some [n, p]"
    by (simp add: broadcast_shapes_def)
  have b: "broadcast_data b [n, p] = map (\<lambda>k. data b ! k) [0..<n * p]"
    using broadcast_data_eq [of "[n, p]" b "\<lambda>k. k"] assms(2) bc_index_mat [of _ n p]
    by (simp add: pad_shape_def)
  have a: "broadcast_data a [n, p] = map (\<lambda>k. data a ! (k div p)) [0..<n * p]"
    using broadcast_data_eq [of "[n, p]" a "\<lambda>k. k div p"] assms(1) bc_index_col [of _ n p]
    by (simp add: pad_shape_def)
  show ?thesis
    using s by (simp add: np_binop_def assms a b map2_upt)
qed

lemma np_binop_mat_mat:
  assumes "shape a = [n, p]" "shape b = [n, p]"
  shows "np_binop f a b =
    Inr \<lparr>shape = [n, p], data = map (\<lambda>k. f (data a ! k) (data b ! k)) [0..<n * p]\<rparr>"
proof -
  have s: "broadcast_shapes [n, p] [n, p] = Some [n, p]"
    by (simp add: broadcast_shapes_def)
  have a: "broadcast_data a [n, p] = map (\<lambda>k. data a ! k) [0..<n * p]" if "shape a = [n, p]" for a :: "'a ndarray"
    using broadcast_data_eq [of "[n, p]" a "\<lambda>k. k"] that bc_index_mat [of _ n p]
    by (simp add: pad_shape_def)
  show ?thesis
    using s by (simp add: np_binop_def assms a map2_upt)
qed

lemma np_binop_one_mat:
  assumes "shape a = [] \<or> shape a = [1]" "shape b = [n, p]"
  shows "np_binop f a b =
    Inr \<lparr>shape = [n, p], data = map (\<lambda>k. f (data a ! 0) (data b ! k)) [0..<n * p]\<rparr>"
proof -
  have s: "broadcast_shapes (shape a) [n, p] = Some [n, p]"
    using assms(1) by (auto simp add: broadcast_shapes_def)
  have b: "broadcast_data b [n, p] = map (\<lambda>k. data b ! k) [0..<n * p]"
    using broadcast_data_eq [of "[n, p]" b "\<lambda>k. k"] assms(2) bc_index_mat [of _ n p]
    by (simp add: pad_shape_def)
  have p: "pad_shape (Suc (Suc 0)) (shape a) = [Suc 0, Suc 0]"
    using assms(1) by (auto simp: pad_shape_def)
  have a: "broadcast_data a [n, p] = map (\<lambda>k. data a ! 0) [0..<n * p]"
    by (simp add: broadcast_data_def p)
  show ?thesis
    using s by (simp add: np_binop_def assms(2) a b map2_upt)
qed

lemma np_outer_eq:
  "np_outer a b = Inr \<lparr>shape = [length (data a), length (data b)],
     data = map (\<lambda>k. data a ! (k div length (data b)) * data b ! (k mod length (data b)))
              [0..<length (data a) * length (data b)]\<rparr>"
  unfolding np_outer_def np_mul_def
  by (subst np_binop_col_row [where n = "length (data a)" and p = "length (data b)"]) simp_all


lemma np_assign_mat:
  assumes "shape d = [n, p]" "shape v = [n, p]"
  shows "np_assign d v = Inr \<lparr>shape = [n, p], data = map (\<lambda>k. data v ! k) [0..<n * p]\<rparr>"
proof -
  have "broadcast_data \<lparr>shape = [n, p], data = data v\<rparr> [n, p] = map (\<lambda>k. data v ! k) [0..<n * p]"
    using broadcast_data_eq [of "[n, p]" "\<lparr>shape = [n, p], data = data v\<rparr>" "\<lambda>k. k"] bc_index_mat [of _ n p]
    by (simp add: pad_shape_def)
  then show ?thesis
    by (simp add: np_assign_def assms pad_shape_def)
qed

lemma np_assign_mat_wf:
  assumes "shape d = [n, p]" "shape v = [n, p]" "length (data v) = n * p"
  shows "np_assign d v = Inr \<lparr>shape = [n, p], data = data v\<rparr>"
  using map_nth [of "data v"] by (simp add: np_assign_mat [OF assms(1,2)] assms(3))

lemma sig_lookup_Some [simp]: "signals k = Some a \<Longrightarrow> sig_lookup signals k = Inr a"
  by (simp add: sig_lookup_def)

lemma step_simbcm_eq:
  fixes alpha :: "'a::{times,minus}"
  assumes pre: "is_vector P (h pa)" and post: "is_vector N (h qa)"
    and theta: "is_vector N (h ta)" and delta: "shape (h da) = [N, P]"
  shows "step_simbcm alpha pa qa ta da h =
    Inr (h(da := \<lparr>shape = [N, P],
      data = map (\<lambda>k. alpha * data (h qa) ! (k div P) * (data (h qa) ! (k div P) - data (h ta) ! (k div P))
                      * data (h pa) ! (k mod P)) [0..<N * P]\<rparr>))"
proof -
  have 1: "np_sub (h qa) (h ta) = Inr \<lparr>shape = [N], data = map (\<lambda>k. data (h qa) ! k - data (h ta) ! k) [0..<N]\<rparr>"
    using post theta by (simp add: np_sub_def is_vector_def np_binop_vec_vec)
  have 2: "np_mul (np_smul alpha (h qa)) \<lparr>shape = [N], data = map (\<lambda>k. data (h qa) ! k - data (h ta) ! k) [0..<N]\<rparr>
     = Inr \<lparr>shape = [N], data = map (\<lambda>k. alpha * data (h qa) ! k * (data (h qa) ! k - data (h ta) ! k)) [0..<N]\<rparr>"
    using post by (simp add: np_mul_def is_vector_def np_smul_def np_binop_vec_vec [where n = N])
  have 3: "np_outer \<lparr>shape = [N], data = map (\<lambda>k. alpha * data (h qa) ! k * (data (h qa) ! k - data (h ta) ! k)) [0..<N]\<rparr> (h pa)
     = Inr \<lparr>shape = [N, P],
      data = map (\<lambda>k. alpha * data (h qa) ! (k div P) * (data (h qa) ! (k div P) - data (h ta) ! (k div P))
                      * data (h pa) ! (k mod P)) [0..<N * P]\<rparr>"
    using pre by (simp add: np_outer_eq is_vector_def less_mult_imp_div_less)
  show ?thesis
    unfolding step_simbcm_def 1 2 3 bindE_simps
    by (simp add: np_assign_mat_wf [OF delta])
qed

lemma np_iadd_mat:
  assumes "shape d = [n, p]" "shape v = [n, p]"
  shows "np_iadd d v = Inr \<lparr>shape = [n, p], data = map (\<lambda>k. data d ! k + data v ! k) [0..<n * p]\<rparr>"
  by (simp add: np_iadd_def np_add_def np_binop_mat_mat [OF assms] assms(1))

lemma step_simoja_eq:
  fixes alpha beta :: "'a::{times,plus,uminus}"
  assumes pre: "is_vector P (h pa)" and post: "is_vector N (h qa)"
    and weights: "is_matrix N P (h wa)" and delta: "shape (h da) = [N, P]"
  shows "step_simoja alpha beta wa pa qa da h =
    Inr (h(da := \<lparr>shape = [N, P],
      data = map (\<lambda>k. - beta * data (h wa) ! k * (alpha * data (h qa) ! (k div P) * data (h qa) ! (k div P))
                      + alpha * data (h qa) ! (k div P) * data (h pa) ! (k mod P)) [0..<N * P]\<rparr>))"
proof -
  let ?sq = "\<lparr>shape = [N], data = map (\<lambda>k. alpha * data (h qa) ! k * data (h qa) ! k) [0..<N]\<rparr>"
  let ?f = "\<lparr>shape = [N, P], data = map (\<lambda>k. - beta * data (h wa) ! k * (alpha * data (h qa) ! (k div P) * data (h qa) ! (k div P))) [0..<N * P]\<rparr>"
  let ?h1 = "h(da := ?f)"
  let ?o = "\<lparr>shape = [N, P], data = map (\<lambda>k. alpha * data (h qa) ! (k div P) * data (h pa) ! (k mod P)) [0..<N * P]\<rparr>"
  have 1: "np_mul (np_smul alpha (h qa)) (h qa) = Inr ?sq"
    using post by (simp add: np_mul_def is_vector_def np_smul_def np_binop_vec_vec [where n = N])
  have 2: "np_newaxis1 ?sq = Inr \<lparr>shape = [N, 1], data = data ?sq\<rparr>"
    by (simp add: np_newaxis1_def)
  have 3: "np_mul (np_smul (- beta) (h wa)) \<lparr>shape = [N, 1], data = data ?sq\<rparr> = Inr ?f"
    using weights
    by (simp add: np_mul_def np_smul_def is_matrix_def np_binop_mat_col [where n = N and p = P]
          less_mult_imp_div_less)
  have 4: "np_assign (h da) ?f = Inr ?f"
    using np_assign_mat_wf [OF delta, of ?f] by simp
  have q: "?h1 qa = h qa" and p: "?h1 pa = h pa"
    using post pre delta by (auto simp: is_vector_def)
  have 5: "np_outer (np_smul alpha (?h1 qa)) (?h1 pa) = Inr ?o"
    unfolding q p using pre post by (simp add: np_outer_eq is_vector_def np_smul_def less_mult_imp_div_less)
  have 6: "np_iadd (?h1 da) ?o = Inr \<lparr>shape = [N, P],
      data = map (\<lambda>k. - beta * data (h wa) ! k * (alpha * data (h qa) ! (k div P) * data (h qa) ! (k div P))
                      + alpha * data (h qa) ! (k div P) * data (h pa) ! (k mod P)) [0..<N * P]\<rparr>"
    by (simp add: np_iadd_mat [where n = N and p = P])
  show ?thesis
    unfolding step_simoja_def 1 2 3 4 bindE_simps Let_def 5 6 by simp
qed

lemma step_simvoja_eq:
  fixes alpha :: "'a::{times,minus}"
  assumes pre: "is_vector D (h pa)" and post: "is_vector N (h qa)"
    and enc: "shape (h ea) = [N, D]" and delta: "shape (h da) = [N, D]"
    and scale: "shape scale = [N, 1]" and ls: "is_scalar (h la)"
  shows "step_simvoja alpha scale pa qa ea da la h =
    Inr (h(da := \<lparr>shape = [N, D],
      data = map (\<lambda>k. alpha * data (h la) ! 0 *
                 (data scale ! (k div D) * (data (h qa) ! (k div D) * data (h pa) ! (k mod D))
                   - data (h qa) ! (k div D) * data (h ea) ! k)) [0..<N * D]\<rparr>))"
proof -
  let ?gate = "np_smul alpha (h la)"
  let ?o = "\<lparr>shape = [N, D], data = map (\<lambda>k. data (h qa) ! (k div D) * data (h pa) ! (k mod D)) [0..<N * D]\<rparr>"
  let ?t = "\<lparr>shape = [N, D], data = map (\<lambda>k. data scale ! (k div D) * (data (h qa) ! (k div D) * data (h pa) ! (k mod D))) [0..<N * D]\<rparr>"
  let ?a = "\<lparr>shape = [N, D], data = map (\<lambda>k. data (h qa) ! (k div D) * data (h ea) ! k) [0..<N * D]\<rparr>"
  let ?d = "\<lparr>shape = [N, D], data = map (\<lambda>k. data scale ! (k div D) * (data (h qa) ! (k div D) * data (h pa) ! (k mod D))
                   - data (h qa) ! (k div D) * data (h ea) ! k) [0..<N * D]\<rparr>"
  let ?v = "\<lparr>shape = [N, D],
      data = map (\<lambda>k. alpha * data (h la) ! 0 *
                 (data scale ! (k div D) * (data (h qa) ! (k div D) * data (h pa) ! (k mod D))
                   - data (h qa) ! (k div D) * data (h ea) ! k)) [0..<N * D]\<rparr>"
  have 1: "np_outer (h qa) (h pa) = Inr ?o"
    using pre post by (simp add: np_outer_eq is_vector_def)
  have 2: "np_mul scale ?o = Inr ?t"
    using scale by (simp add: np_mul_def np_binop_col_mat [where n = N and p = D])
  have 3: "np_newaxis1 (h qa) = Inr \<lparr>shape = [N, 1], data = data (h qa)\<rparr>"
    using post by (simp add: np_newaxis1_def is_vector_def)
  have 4: "np_mul \<lparr>shape = [N, 1], data = data (h qa)\<rparr> (h ea) = Inr ?a"
    using enc by (simp add: np_mul_def np_binop_col_mat [where n = N and p = D])
  have 5: "np_sub ?t ?a = Inr ?d"
    by (simp add: np_sub_def np_binop_mat_mat [where n = N and p = D])
  have g: "shape ?gate = [] \<or> shape ?gate = [1]" and g0: "data ?gate ! 0 = alpha * data (h la) ! 0"
    using ls by (auto simp: is_scalar_def np_smul_def length_Suc_conv)
  have 6: "np_mul ?gate ?d = Inr ?v"
    unfolding np_mul_def by (subst np_binop_one_mat [OF g, where n = N and p = D]) (simp_all add: g0)
  have 7: "np_assign (h da) ?v = Inr ?v"
    using np_assign_mat_wf [OF delta, of ?v] by simp
  show ?thesis
    unfolding step_simvoja_def Let_def 1 2 3 4 5 6 7 bindE_simps by simp
qed

lemma np_assign_shape_cong: "shape d1 = shape d2 \<Longrightarrow> np_assign d1 v = np_assign d2 v"
  by (simp add: np_assign_def Let_def cong: if_cong)

lemma delta_of_bindE:
  "delta_of da (bindE m f) = (case m of Inl e \<Rightarrow> Inl e | Inr x \<Rightarrow> delta_of da (f x))"
  by (cases m) (simp_all add: delta_of_def)

lemma step_simbcm_cong:
  assumes "h2 pa = h1 pa" "h2 qa = h1 qa" "h2 ta = h1 ta" "shape (h2 da) = shape (h1 da)"
  shows "delta_of da (step_simbcm alpha pa qa ta da h2) = delta_of da (step_simbcm alpha pa qa ta da h1)"
  unfolding step_simbcm_def delta_of_bindE assms(1-3) np_assign_shape_cong [OF assms(4)]
  by (simp add: delta_of_def split: sum.splits)

lemma step_simoja_cong:
  assumes "h2 wa = h1 wa" "h2 pa = h1 pa" "h2 qa = h1 qa" "shape (h2 da) = shape (h1 da)"
  shows "delta_of da (step_simoja alpha beta wa pa qa da h2)
       = delta_of da (step_simoja alpha beta wa pa qa da h1)"
proof -
  have q: "(h2(da := r)) qa = (h1(da := r)) qa" and p: "(h2(da := r)) pa = (h1(da := r)) pa" for r
    using assms(2,3) by simp_all
  show ?thesis
    unfolding step_simoja_def delta_of_bindE assms(1-3) np_assign_shape_cong [OF assms(4)] Let_def q p
    by (simp add: delta_of_def split: sum.splits)
qed

lemma step_simvoja_cong:
  assumes "h2 pa = h1 pa" "h2 qa = h1 qa" "h2 ea = h1 ea" "h2 la = h1 la"
    "shape (h2 da) = shape (h1 da)"
  shows "delta_of da (step_simvoja alpha scale pa qa ea da la h2)
       = delta_of da (step_simvoja alpha scale pa qa ea da la h1)"
  unfolding step_simvoja_def delta_of_bindE assms(1-4) np_assign_shape_cong [OF assms(5)] Let_def
  by (simp add: delta_of_def split: sum.splits)

lemma step_simbcm_frame: "step_simbcm alpha pa qa ta da h = Inr h' \<Longrightarrow> a \<noteq> da \<Longrightarrow> h' a = h a"
  by (auto simp: step_simbcm_def bindE_Inr_iff)

lemma step_simoja_frame: "step_simoja alpha beta wa pa qa da h = Inr h' \<Longrightarrow> a \<noteq> da \<Longrightarrow> h' a = h a"
  by (auto simp: step_simoja_def bindE_Inr_iff Let_def)

lemma step_simvoja_frame:
  "step_simvoja alpha scale pa qa ea da la h = Inr h' \<Longrightarrow> a \<noteq> da \<Longrightarrow> h' a = h a"
  by (auto simp: step_simvoja_def bindE_Inr_iff Let_def)

section \<open>The step functions\<close>

text \<open>
  C2. One step of SimBCM, made for vectors \<open>pre_filtered\<close> of length \<open>P\<close>, \<open>post_filtered\<close>
  and \<open>theta\<close> of length \<open>N\<close> and an \<open>N\<close> by \<open>P\<close> buffer \<open>delta\<close>, returns and leaves in
  every element \<open>(i, j)\<close> of \<open>delta\<close> the product
  \<open>learning_rate * dt * post[i] * (post[i] - theta[i]) * pre[j]\<close>, with the operations in
  this order; no other buffer changes. No law of the arithmetic is used.
\<close>

theorem simbcm_step_outer_product:
  fixes learning_rate dt :: "'a::{times,minus}"
  assumes "signals pre = Some pa" "signals post = Some qa" "signals theta = Some ta"
    and "signals delta = Some da"
    and "is_vector P (h pa)" "is_vector N (h qa)" "is_vector N (h ta)" "is_matrix N P (h da)"
  shows "\<exists>step h'.
      make_step_simbcm (SimBCM_init pre post theta delta learning_rate tag) signals dt = Inr step
    \<and> step h = Inr h'
    \<and> is_matrix N P (h' da)
    \<and> (\<forall>i<N. \<forall>j<P. data (h' da) ! (i * P + j) =
          learning_rate * dt * data (h qa) ! i * (data (h qa) ! i - data (h ta) ! i) * data (h pa) ! j)
    \<and> (\<forall>a. a \<noteq> da \<longrightarrow> h' a = h a)"
proof -
  let ?alpha = "learning_rate * dt"
  have mk: "make_step_simbcm (SimBCM_init pre post theta delta learning_rate tag) signals dt
      = Inr (step_simbcm ?alpha pa qa ta da)"
    using assms(1-4) by (simp add: make_step_simbcm_def SimBCM_init_def)
  have d: "shape (h da) = [N, P]"
    using assms(8) by (simp add: is_matrix_def)
  note st = step_simbcm_eq [OF assms(5-7) d, of ?alpha]
  show ?thesis
  proof (intro exI conjI)
    show "make_step_simbcm (SimBCM_init pre post theta delta learning_rate tag) signals dt
      = Inr (step_simbcm ?alpha pa qa ta da)"
      by (rule mk)
    show "step_simbcm ?alpha pa qa ta da h = Inr (h(da := \<lparr>shape = [N, P],
      data = map (\<lambda>k. ?alpha * data (h qa) ! (k div P) * (data (h qa) ! (k div P) - data (h ta) ! (k div P))
                      * data (h pa) ! (k mod P)) [0..<N * P]\<rparr>))"
      by (rule st)
  qed (simp_all add: is_matrix_def flat_index_less)
qed

text \<open>
  The literal case of the specification: \<open>pre = [0.2, 0.4]\<close>, \<open>post = [0.5]\<close>,
  \<open>theta = [0.1]\<close>, \<open>learning_rate = 1\<close>, \<open>dt = 0.001\<close>.
\<close>

theorem simbcm_step_outer_product_witness:
  "\<exists>step h'.
      make_step_simbcm (SimBCM_init ''pre'' ''post'' ''theta'' ''delta'' (1::real) None)
        [''pre'' \<mapsto> 0, ''post'' \<mapsto> 1, ''theta'' \<mapsto> 2, ''delta'' \<mapsto> 3] (1 / 1000) = Inr step
    \<and> step ((\<lambda>_. np_zeros [])
          (0 := \<lparr>shape = [2], data = [1 / 5, 2 / 5]\<rparr>,
           1 := \<lparr>shape = [1], data = [1 / 2]\<rparr>,
           2 := \<lparr>shape = [1], data = [1 / 10]\<rparr>,
           3 := np_zeros [1, 2])) = Inr h'
    \<and> is_matrix 1 2 (h' 3)
    \<and> data (h' 3) ! 0 = 1 / 1000 * (1 / 2) * (2 / 5) * (1 / 5)
    \<and> data (h' 3) ! 1 = 1 / 1000 * (1 / 2) * (2 / 5) * (2 / 5)"
proof -
  let ?h = "(\<lambda>_::nat. np_zeros [])
          (0 := \<lparr>shape = [2], data = [1 / 5, 2 / 5 :: real]\<rparr>,
           1 := \<lparr>shape = [1], data = [1 / 2]\<rparr>,
           2 := \<lparr>shape = [1], data = [1 / 10]\<rparr>,
           3 := np_zeros [1, 2])"
  let ?s = "[''pre'' \<mapsto> 0::nat, ''post'' \<mapsto> 1, ''theta'' \<mapsto> 2, ''delta'' \<mapsto> 3]"
  have "\<exists>step h'.
      make_step_simbcm (SimBCM_init ''pre'' ''post'' ''theta'' ''delta'' (1::real) None) ?s (1 / 1000) = Inr step
    \<and> step ?h = Inr h'
    \<and> is_matrix 1 2 (h' 3)
    \<and> (\<forall>i<1. \<forall>j<2. data (h' 3) ! (i * 2 + j) =
          1 * (1 / 1000) * data (?h 1) ! i * (data (?h 1) ! i - data (?h 2) ! i) * data (?h 0) ! j)
    \<and> (\<forall>a. a \<noteq> 3 \<longrightarrow> h' a = ?h a)"
    by (rule simbcm_step_outer_product) (simp_all add: is_vector_def is_matrix_def np_zeros_def)
  then obtain step h' where
    a: "make_step_simbcm (SimBCM_init ''pre'' ''post'' ''theta'' ''delta'' (1::real) None) ?s (1 / 1000) = Inr step"
    and b: "step ?h = Inr h'" and c: "is_matrix 1 2 (h' 3)"
    and d: "\<forall>i<1. \<forall>j<2. data (h' 3) ! (i * 2 + j) =
          1 * (1 / 1000) * data (?h 1) ! i * (data (?h 1) ! i - data (?h 2) ! i) * data (?h 0) ! j"
    by blast
  from d have "data (h' 3) ! (0 * 2 + 0) = 1 * (1 / 1000) * data (?h 1) ! 0 * (data (?h 1) ! 0 - data (?h 2) ! 0) * data (?h 0) ! 0"
    by (meson zero_less_one zero_less_numeral)
  moreover from d have "data (h' 3) ! (0 * 2 + 1) = 1 * (1 / 1000) * data (?h 1) ! 0 * (data (?h 1) ! 0 - data (?h 2) ! 0) * data (?h 0) ! 1"
    by (meson zero_less_one one_less_numeral_iff semiring_norm(76))
  ultimately show ?thesis
    using a b c by (intro exI [of _ step] exI [of _ h']) simp
qed





section \<open>The dependency contract\<close>

lemma sig_lookup_Inr: "sig_lookup signals k = Inr a \<longleftrightarrow> signals k = Some a"
  by (simp add: sig_lookup_def split: option.splits)

lemma make_step_simbcm_Inr:
  fixes dt :: "'a::{times,minus,plus,uminus}"
  assumes "make_step_simbcm self signals dt = Inr step"
  shows "\<exists>pa qa ta da.
      signals (bcm_pre_filtered self) = Some pa \<and> signals (bcm_post_filtered self) = Some qa
    \<and> signals (bcm_theta self) = Some ta \<and> signals (bcm_delta self) = Some da
    \<and> step = step_simbcm (bcm_learning_rate self * dt) pa qa ta da"
  using assms by (auto simp: make_step_simbcm_def bindE_Inr_iff sig_lookup_Inr Let_def)

lemma make_step_simoja_Inr:
  fixes dt :: "'a::{times,minus,plus,uminus}"
  assumes "make_step_simoja self signals dt = Inr step"
  shows "\<exists>wa pa qa da.
      signals (oja_weights self) = Some wa \<and> signals (oja_pre_filtered self) = Some pa
    \<and> signals (oja_post_filtered self) = Some qa \<and> signals (oja_delta self) = Some da
    \<and> step = step_simoja (oja_learning_rate self * dt) (oja_beta self) wa pa qa da"
  using assms by (auto simp: make_step_simoja_def bindE_Inr_iff sig_lookup_Inr Let_def)

lemma make_step_simvoja_Inr:
  fixes dt :: "'a::{times,minus,plus,uminus}"
  assumes "make_step_simvoja self signals dt = Inr step"
  shows "\<exists>pa qa ea da la scale.
      signals (voja_pre_decoded self) = Some pa \<and> signals (voja_post_filtered self) = Some qa
    \<and> signals (voja_scaled_encoders self) = Some ea \<and> signals (voja_delta self) = Some da
    \<and> signals (voja_learning_signal self) = Some la
    \<and> step = step_simvoja (voja_learning_rate self * dt) scale pa qa ea da la"
  using assms by (auto simp: make_step_simvoja_def bindE_Inr_iff sig_lookup_Inr Let_def)

lemma addresses_Cons:
  "addresses signals (k # ks) = (case signals k of None \<Rightarrow> {} | Some a \<Rightarrow> {a}) \<union> addresses signals ks"
  by (auto simp: addresses_def split: option.splits)

lemma addresses_Nil: "addresses signals [] = {}"
  by (simp add: addresses_def)

lemma same_outcome_delta:
  assumes "delta_of da r2 = delta_of da r1"
  shows "same_outcome {da} r1 r2"
  using assms by (cases r1; cases r2) (simp_all add: same_outcome_def delta_of_def agree_on_def)

lemma delta_of_Inr:
  assumes "delta_of da r2 = delta_of da r1" "r1 = Inr h1"
  shows "\<exists>h2. r2 = Inr h2 \<and> h2 da = h1 da"
  using assms by (cases r2) (simp_all add: delta_of_def)

lemma contract_simbcm:
  fixes dt :: "'a::{times,minus,plus,uminus}"
  assumes "make_step_simbcm (SimBCM_init pre post theta delta lr tag) signals dt = Inr dt_step"
  shows "honors_contract (SimBCM_init pre post theta delta lr tag) signals dt_step"
proof -
  from make_step_simbcm_Inr [OF assms] obtain pa qa ta da where
    s: "signals pre = Some pa" "signals post = Some qa" "signals theta = Some ta"
       "signals delta = Some da"
    and st: "dt_step = step_simbcm (lr * dt) pa qa ta da"
    by (auto simp: SimBCM_init_def)
  have R: "addresses signals (reads (SimBCM_init pre post theta delta lr tag)
             @ updates (SimBCM_init pre post theta delta lr tag)) = {pa, qa, ta, da}"
    using s by (auto simp: SimBCM_init_def addresses_Cons addresses_Nil)
  have W: "addresses signals (sets (SimBCM_init pre post theta delta lr tag)
             @ incs (SimBCM_init pre post theta delta lr tag)
             @ updates (SimBCM_init pre post theta delta lr tag)) = {da}"
    using s by (auto simp: SimBCM_init_def addresses_Cons addresses_Nil)
  show ?thesis
    unfolding honors_contract_def R W st
    by (auto simp: agree_on_def intro!: same_outcome_delta step_simbcm_cong
          dest: step_simbcm_frame)
qed


lemma contract_simoja:
  fixes dt :: "'a::{times,minus,plus,uminus}"
  assumes "make_step_simoja (SimOja_init pre post weights delta lr beta tag) signals dt = Inr st"
  shows "honors_contract (SimOja_init pre post weights delta lr beta tag) signals st"
proof -
  from make_step_simoja_Inr [OF assms] obtain wa pa qa da where
    s: "signals pre = Some pa" "signals post = Some qa" "signals weights = Some wa"
       "signals delta = Some da"
    and st: "st = step_simoja (lr * dt) beta wa pa qa da"
    by (auto simp: SimOja_init_def)
  have R: "addresses signals (reads (SimOja_init pre post weights delta lr beta tag)
             @ updates (SimOja_init pre post weights delta lr beta tag)) = {pa, qa, wa, da}"
    using s by (auto simp: SimOja_init_def addresses_Cons addresses_Nil)
  have W: "addresses signals (sets (SimOja_init pre post weights delta lr beta tag)
             @ incs (SimOja_init pre post weights delta lr beta tag)
             @ updates (SimOja_init pre post weights delta lr beta tag)) = {da}"
    using s by (auto simp: SimOja_init_def addresses_Cons addresses_Nil)
  show ?thesis
    unfolding honors_contract_def R W st
    by (auto simp: agree_on_def intro!: same_outcome_delta step_simoja_cong
          dest: step_simoja_frame)
qed

lemma contract_simvoja:
  fixes dt :: "'a::{times,minus,plus,uminus}"
  assumes "make_step_simvoja (SimVoja_init pre post enc delta scale learn lr) signals dt = Inr st"
  shows "honors_contract (SimVoja_init pre post enc delta scale learn lr) signals st"
proof -
  from make_step_simvoja_Inr [OF assms] obtain pa qa ea da la sc where
    s: "signals pre = Some pa" "signals post = Some qa" "signals enc = Some ea"
       "signals delta = Some da" "signals learn = Some la"
    and st: "st = step_simvoja (lr * dt) sc pa qa ea da la"
    by (auto simp: SimVoja_init_def)
  have R: "addresses signals (reads (SimVoja_init pre post enc delta scale learn lr)
             @ updates (SimVoja_init pre post enc delta scale learn lr)) = {pa, qa, ea, la, da}"
    using s by (auto simp: SimVoja_init_def addresses_Cons addresses_Nil)
  have W: "addresses signals (sets (SimVoja_init pre post enc delta scale learn lr)
             @ incs (SimVoja_init pre post enc delta scale learn lr)
             @ updates (SimVoja_init pre post enc delta scale learn lr)) = {da}"
    using s by (auto simp: SimVoja_init_def addresses_Cons addresses_Nil)
  show ?thesis
    unfolding honors_contract_def R W st
    by (auto simp: agree_on_def intro!: same_outcome_delta step_simvoja_cong
          dest: step_simvoja_frame)
qed

lemma overwrites_simbcm:
  fixes dt :: "'a::{times,minus,plus,uminus}"
  assumes "make_step_simbcm (SimBCM_init pre post theta delta lr tag) signals dt = Inr st"
  shows "overwrites_updates (SimBCM_init pre post theta delta lr tag) signals st"
proof -
  from make_step_simbcm_Inr [OF assms] obtain pa qa ta da where
    s: "signals pre = Some pa" "signals post = Some qa" "signals theta = Some ta"
       "signals delta = Some da"
    and st: "st = step_simbcm (lr * dt) pa qa ta da"
    by (auto simp: SimBCM_init_def)
  have R: "addresses signals (reads (SimBCM_init pre post theta delta lr tag)) = {pa, qa, ta}"
    using s by (auto simp: SimBCM_init_def addresses_Cons addresses_Nil)
  have W: "addresses signals (updates (SimBCM_init pre post theta delta lr tag)) = {da}"
    using s by (auto simp: SimBCM_init_def addresses_Cons addresses_Nil)
  show ?thesis
    unfolding overwrites_updates_def R W st
  proof (intro allI impI, elim conjE)
    fix h1 h2 h1'
    assume a: "agree_on {pa, qa, ta} h1 h2" and b: "\<forall>a\<in>{da}. shape (h1 a) = shape (h2 a)"
      and c: "step_simbcm (lr * dt) pa qa ta da h1 = Inr h1'"
    have "delta_of da (step_simbcm (lr * dt) pa qa ta da h2)
        = delta_of da (step_simbcm (lr * dt) pa qa ta da h1)"
      using a b by (intro step_simbcm_cong) (simp_all add: agree_on_def)
    from delta_of_Inr [OF this c]
    show "\<exists>h2'. step_simbcm (lr * dt) pa qa ta da h2 = Inr h2' \<and> agree_on {da} h1' h2'"
      by (auto simp: agree_on_def)
  qed
qed

lemma overwrites_simoja:
  fixes dt :: "'a::{times,minus,plus,uminus}"
  assumes "make_step_simoja (SimOja_init pre post weights delta lr beta tag) signals dt = Inr st"
  shows "overwrites_updates (SimOja_init pre post weights delta lr beta tag) signals st"
proof -
  from make_step_simoja_Inr [OF assms] obtain wa pa qa da where
    s: "signals pre = Some pa" "signals post = Some qa" "signals weights = Some wa"
       "signals delta = Some da"
    and st: "st = step_simoja (lr * dt) beta wa pa qa da"
    by (auto simp: SimOja_init_def)
  have R: "addresses signals (reads (SimOja_init pre post weights delta lr beta tag)) = {pa, qa, wa}"
    using s by (auto simp: SimOja_init_def addresses_Cons addresses_Nil)
  have W: "addresses signals (updates (SimOja_init pre post weights delta lr beta tag)) = {da}"
    using s by (auto simp: SimOja_init_def addresses_Cons addresses_Nil)
  show ?thesis
    unfolding overwrites_updates_def R W st
  proof (intro allI impI, elim conjE)
    fix h1 h2 h1'
    assume a: "agree_on {pa, qa, wa} h1 h2" and b: "\<forall>a\<in>{da}. shape (h1 a) = shape (h2 a)"
      and c: "step_simoja (lr * dt) beta wa pa qa da h1 = Inr h1'"
    have "delta_of da (step_simoja (lr * dt) beta wa pa qa da h2)
        = delta_of da (step_simoja (lr * dt) beta wa pa qa da h1)"
      using a b by (intro step_simoja_cong) (simp_all add: agree_on_def)
    from delta_of_Inr [OF this c]
    show "\<exists>h2'. step_simoja (lr * dt) beta wa pa qa da h2 = Inr h2' \<and> agree_on {da} h1' h2'"
      by (auto simp: agree_on_def)
  qed
qed

lemma overwrites_simvoja:
  fixes dt :: "'a::{times,minus,plus,uminus}"
  assumes "make_step_simvoja (SimVoja_init pre post enc delta scale learn lr) signals dt = Inr st"
  shows "overwrites_updates (SimVoja_init pre post enc delta scale learn lr) signals st"
proof -
  from make_step_simvoja_Inr [OF assms] obtain pa qa ea da la sc where
    s: "signals pre = Some pa" "signals post = Some qa" "signals enc = Some ea"
       "signals delta = Some da" "signals learn = Some la"
    and st: "st = step_simvoja (lr * dt) sc pa qa ea da la"
    by (auto simp: SimVoja_init_def)
  have R: "addresses signals (reads (SimVoja_init pre post enc delta scale learn lr)) = {pa, qa, ea, la}"
    using s by (auto simp: SimVoja_init_def addresses_Cons addresses_Nil)
  have W: "addresses signals (updates (SimVoja_init pre post enc delta scale learn lr)) = {da}"
    using s by (auto simp: SimVoja_init_def addresses_Cons addresses_Nil)
  show ?thesis
    unfolding overwrites_updates_def R W st
  proof (intro allI impI, elim conjE)
    fix h1 h2 h1'
    assume a: "agree_on {pa, qa, ea, la} h1 h2" and b: "\<forall>a\<in>{da}. shape (h1 a) = shape (h2 a)"
      and c: "step_simvoja (lr * dt) sc pa qa ea da la h1 = Inr h1'"
    have "delta_of da (step_simvoja (lr * dt) sc pa qa ea da la h2)
        = delta_of da (step_simvoja (lr * dt) sc pa qa ea da la h1)"
      using a b by (intro step_simvoja_cong) (simp_all add: agree_on_def)
    from delta_of_Inr [OF this c]
    show "\<exists>h2'. step_simvoja (lr * dt) sc pa qa ea da la h2 = Inr h2' \<and> agree_on {da} h1' h2'"
      by (auto simp: agree_on_def)
  qed
qed

text \<open>
  C8. Each of SimBCM, SimOja and SimVoja is made with empty \<open>sets\<close> and \<open>incs\<close>, with the
  signals it reads in \<open>reads\<close> and with \<open>delta\<close> alone in \<open>updates\<close>. Whenever its step function
  can be made, the step honors the contract: what it does is determined by the buffers of
  \<open>reads\<close> and \<open>updates\<close>, and it leaves every buffer other than that of \<open>delta\<close> as it was.
\<close>

theorem learning_operators_honor_contract:
  fixes dt lr beta :: "'a::{times,minus,plus,uminus}"
  shows
   "(sets (SimBCM_init pre post theta delta lr tag) = []
      \<and> incs (SimBCM_init pre post theta delta lr tag) = []
      \<and> reads (SimBCM_init pre post theta delta lr tag) = [pre, post, theta]
      \<and> updates (SimBCM_init pre post theta delta lr tag) = [delta]
      \<and> (\<forall>step. make_step_simbcm (SimBCM_init pre post theta delta lr tag) signals dt = Inr step
            \<longrightarrow> honors_contract (SimBCM_init pre post theta delta lr tag) signals step))
  \<and> (sets (SimOja_init pre post weights delta lr beta tag) = []
      \<and> incs (SimOja_init pre post weights delta lr beta tag) = []
      \<and> reads (SimOja_init pre post weights delta lr beta tag) = [pre, post, weights]
      \<and> updates (SimOja_init pre post weights delta lr beta tag) = [delta]
      \<and> (\<forall>step. make_step_simoja (SimOja_init pre post weights delta lr beta tag) signals dt
              = Inr step
            \<longrightarrow> honors_contract (SimOja_init pre post weights delta lr beta tag) signals step))
  \<and> (sets (SimVoja_init pre_decoded post scaled_encoders delta scale learning_signal lr) = []
      \<and> incs (SimVoja_init pre_decoded post scaled_encoders delta scale learning_signal lr) = []
      \<and> reads (SimVoja_init pre_decoded post scaled_encoders delta scale learning_signal lr)
          = [pre_decoded, post, scaled_encoders, learning_signal]
      \<and> updates (SimVoja_init pre_decoded post scaled_encoders delta scale learning_signal lr)
          = [delta]
      \<and> (\<forall>step. make_step_simvoja
                   (SimVoja_init pre_decoded post scaled_encoders delta scale learning_signal lr)
                   signals dt = Inr step
            \<longrightarrow> honors_contract
                  (SimVoja_init pre_decoded post scaled_encoders delta scale learning_signal lr)
                  signals step))"
proof (intro conjI allI impI)
  fix step
  assume "make_step_simbcm (SimBCM_init pre post theta delta lr tag) signals dt = Inr step"
  then show "honors_contract (SimBCM_init pre post theta delta lr tag) signals step"
    by (rule contract_simbcm)
next
  fix step
  assume "make_step_simoja (SimOja_init pre post weights delta lr beta tag) signals dt = Inr step"
  then show "honors_contract (SimOja_init pre post weights delta lr beta tag) signals step"
    by (rule contract_simoja)
next
  fix step
  assume "make_step_simvoja
            (SimVoja_init pre_decoded post scaled_encoders delta scale learning_signal lr)
            signals dt = Inr step"
  then show "honors_contract
               (SimVoja_init pre_decoded post scaled_encoders delta scale learning_signal lr)
               signals step"
    by (rule contract_simvoja)
qed (simp_all add: SimBCM_init_def SimOja_init_def SimVoja_init_def)

text \<open>
  The three operators on heaps that differ in a buffer (number 9) outside every list.
\<close>

theorem learning_operators_honor_contract_witness:
  "(\<exists>step.
      make_step_simbcm (SimBCM_init ''pre'' ''post'' ''theta'' ''delta'' (1::real) None)
        [''pre'' \<mapsto> 0, ''post'' \<mapsto> 1, ''theta'' \<mapsto> 2, ''delta'' \<mapsto> 3] (1 / 1000) = Inr step
    \<and> honors_contract (SimBCM_init ''pre'' ''post'' ''theta'' ''delta'' (1::real) None)
        [''pre'' \<mapsto> 0, ''post'' \<mapsto> 1, ''theta'' \<mapsto> 2, ''delta'' \<mapsto> 3] step
    \<and> same_outcome {3}
         (step ((\<lambda>_. np_zeros [])
            (0 := \<lparr>shape = [2], data = [1 / 5, 2 / 5]\<rparr>,
             1 := \<lparr>shape = [1], data = [1 / 2]\<rparr>,
             2 := \<lparr>shape = [1], data = [1 / 10]\<rparr>,
             3 := \<lparr>shape = [1, 2], data = [0, 0]\<rparr>)))
         (step ((\<lambda>_. np_zeros [])
            (0 := \<lparr>shape = [2], data = [1 / 5, 2 / 5]\<rparr>,
             1 := \<lparr>shape = [1], data = [1 / 2]\<rparr>,
             2 := \<lparr>shape = [1], data = [1 / 10]\<rparr>,
             3 := \<lparr>shape = [1, 2], data = [0, 0]\<rparr>,
             9 := \<lparr>shape = [1], data = [5]\<rparr>))))
 \<and> (\<exists>step.
      make_step_simoja (SimOja_init ''pre'' ''post'' ''weights'' ''delta'' (1::real) 1 None)
        [''pre'' \<mapsto> 0, ''post'' \<mapsto> 1, ''weights'' \<mapsto> 2, ''delta'' \<mapsto> 3] (1 / 1000) = Inr step
    \<and> honors_contract (SimOja_init ''pre'' ''post'' ''weights'' ''delta'' (1::real) 1 None)
        [''pre'' \<mapsto> 0, ''post'' \<mapsto> 1, ''weights'' \<mapsto> 2, ''delta'' \<mapsto> 3] step
    \<and> same_outcome {3}
         (step ((\<lambda>_. np_zeros [])
            (0 := \<lparr>shape = [2], data = [1 / 5, 2 / 5]\<rparr>,
             1 := \<lparr>shape = [1], data = [1 / 2]\<rparr>,
             2 := \<lparr>shape = [1, 2], data = [1, 1]\<rparr>,
             3 := \<lparr>shape = [1, 2], data = [0, 0]\<rparr>)))
         (step ((\<lambda>_. np_zeros [])
            (0 := \<lparr>shape = [2], data = [1 / 5, 2 / 5]\<rparr>,
             1 := \<lparr>shape = [1], data = [1 / 2]\<rparr>,
             2 := \<lparr>shape = [1, 2], data = [1, 1]\<rparr>,
             3 := \<lparr>shape = [1, 2], data = [0, 0]\<rparr>,
             9 := \<lparr>shape = [1], data = [5]\<rparr>))))
 \<and> (\<exists>step.
      make_step_simvoja
        (SimVoja_init ''pre'' ''post'' ''enc'' ''delta'' \<lparr>shape = [1], data = [3]\<rparr> ''learn'' (1::real))
        [''pre'' \<mapsto> 0, ''post'' \<mapsto> 1, ''enc'' \<mapsto> 2, ''delta'' \<mapsto> 3, ''learn'' \<mapsto> 4] (1 / 1000)
        = Inr step
    \<and> honors_contract
        (SimVoja_init ''pre'' ''post'' ''enc'' ''delta'' \<lparr>shape = [1], data = [3]\<rparr> ''learn'' (1::real))
        [''pre'' \<mapsto> 0, ''post'' \<mapsto> 1, ''enc'' \<mapsto> 2, ''delta'' \<mapsto> 3, ''learn'' \<mapsto> 4] step
    \<and> same_outcome {3}
         (step ((\<lambda>_. np_zeros [])
            (0 := \<lparr>shape = [2], data = [1 / 2, 1 / 4]\<rparr>,
             1 := \<lparr>shape = [1], data = [2]\<rparr>,
             2 := \<lparr>shape = [1, 2], data = [1, 0]\<rparr>,
             3 := \<lparr>shape = [1, 2], data = [0, 0]\<rparr>,
             4 := \<lparr>shape = [1], data = [1]\<rparr>)))
         (step ((\<lambda>_. np_zeros [])
            (0 := \<lparr>shape = [2], data = [1 / 2, 1 / 4]\<rparr>,
             1 := \<lparr>shape = [1], data = [2]\<rparr>,
             2 := \<lparr>shape = [1, 2], data = [1, 0]\<rparr>,
             3 := \<lparr>shape = [1, 2], data = [0, 0]\<rparr>,
             4 := \<lparr>shape = [1], data = [1]\<rparr>,
             9 := \<lparr>shape = [1], data = [5]\<rparr>))))"
proof (intro conjI)
  let ?s = "[''pre'' \<mapsto> 0::nat, ''post'' \<mapsto> 1, ''theta'' \<mapsto> 2, ''delta'' \<mapsto> 3]"
  let ?op = "SimBCM_init ''pre'' ''post'' ''theta'' ''delta'' (1::real) None"
  let ?st = "step_simbcm (1 * (1 / 1000) :: real) 0 1 2 3"
  let ?h1 = "(\<lambda>_::nat. np_zeros [])
            (0 := \<lparr>shape = [2], data = [1 / 5, 2 / 5 :: real]\<rparr>,
             1 := \<lparr>shape = [1], data = [1 / 2]\<rparr>,
             2 := \<lparr>shape = [1], data = [1 / 10]\<rparr>,
             3 := \<lparr>shape = [1, 2], data = [0, 0]\<rparr>)"
  have mk: "make_step_simbcm ?op ?s (1 / 1000) = Inr ?st"
    by (simp add: make_step_simbcm_def SimBCM_init_def)
  have hc: "honors_contract ?op ?s ?st"
    using learning_operators_honor_contract [of "''pre''" "''post''" "''theta''" "''delta''" 1 None ?s "1 / 1000"] mk
    by blast
  have "agree_on (addresses ?s (reads ?op @ updates ?op)) ?h1 (?h1(9 := \<lparr>shape = [1], data = [5]\<rparr>))"
    by (simp add: agree_on_def SimBCM_init_def addresses_Cons addresses_Nil)
  with hc have "same_outcome (addresses ?s (sets ?op @ incs ?op @ updates ?op))
      (?st ?h1) (?st (?h1(9 := \<lparr>shape = [1], data = [5]\<rparr>)))"
    unfolding honors_contract_def by blast
  then have "same_outcome {3} (?st ?h1) (?st (?h1(9 := \<lparr>shape = [1], data = [5]\<rparr>)))"
    by (simp add: SimBCM_init_def addresses_Cons addresses_Nil)
  with mk hc show "\<exists>step. make_step_simbcm ?op ?s (1 / 1000) = Inr step
      \<and> honors_contract ?op ?s step
      \<and> same_outcome {3} (step ?h1) (step (?h1(9 := \<lparr>shape = [1], data = [5]\<rparr>)))"
    by blast
next
  let ?s = "[''pre'' \<mapsto> 0::nat, ''post'' \<mapsto> 1, ''weights'' \<mapsto> 2, ''delta'' \<mapsto> 3]"
  let ?op = "SimOja_init ''pre'' ''post'' ''weights'' ''delta'' (1::real) 1 None"
  let ?st = "step_simoja (1 * (1 / 1000) :: real) 1 2 0 1 3"
  let ?h1 = "(\<lambda>_::nat. np_zeros [])
            (0 := \<lparr>shape = [2], data = [1 / 5, 2 / 5 :: real]\<rparr>,
             1 := \<lparr>shape = [1], data = [1 / 2]\<rparr>,
             2 := \<lparr>shape = [1, 2], data = [1, 1]\<rparr>,
             3 := \<lparr>shape = [1, 2], data = [0, 0]\<rparr>)"
  have mk: "make_step_simoja ?op ?s (1 / 1000) = Inr ?st"
    by (simp add: make_step_simoja_def SimOja_init_def)
  have hc: "honors_contract ?op ?s ?st"
    using learning_operators_honor_contract [of "''pre''" "''post''" _ "''delta''" 1 None ?s "1 / 1000" "''weights''" 1] mk
    by blast
  have "agree_on (addresses ?s (reads ?op @ updates ?op)) ?h1 (?h1(9 := \<lparr>shape = [1], data = [5]\<rparr>))"
    by (simp add: agree_on_def SimOja_init_def addresses_Cons addresses_Nil)
  with hc have "same_outcome (addresses ?s (sets ?op @ incs ?op @ updates ?op))
      (?st ?h1) (?st (?h1(9 := \<lparr>shape = [1], data = [5]\<rparr>)))"
    unfolding honors_contract_def by blast
  then have "same_outcome {3} (?st ?h1) (?st (?h1(9 := \<lparr>shape = [1], data = [5]\<rparr>)))"
    by (simp add: SimOja_init_def addresses_Cons addresses_Nil)
  with mk hc show "\<exists>step. make_step_simoja ?op ?s (1 / 1000) = Inr step
      \<and> honors_contract ?op ?s step
      \<and> same_outcome {3} (step ?h1) (step (?h1(9 := \<lparr>shape = [1], data = [5]\<rparr>)))"
    by blast
next
  let ?s = "[''pre'' \<mapsto> 0::nat, ''post'' \<mapsto> 1, ''enc'' \<mapsto> 2, ''delta'' \<mapsto> 3, ''learn'' \<mapsto> 4]"
  let ?sc = "\<lparr>shape = [1], data = [3::real]\<rparr>"
  let ?op = "SimVoja_init ''pre'' ''post'' ''enc'' ''delta'' ?sc ''learn'' (1::real)"
  let ?st = "step_simvoja (1 * (1 / 1000) :: real) \<lparr>shape = [1, 1], data = [3]\<rparr> 0 1 2 3 4"
  let ?h1 = "(\<lambda>_::nat. np_zeros [])
            (0 := \<lparr>shape = [2], data = [1 / 2, 1 / 4 :: real]\<rparr>,
             1 := \<lparr>shape = [1], data = [2]\<rparr>,
             2 := \<lparr>shape = [1, 2], data = [1, 0]\<rparr>,
             3 := \<lparr>shape = [1, 2], data = [0, 0]\<rparr>,
             4 := \<lparr>shape = [1], data = [1]\<rparr>)"
  have mk: "make_step_simvoja ?op ?s (1 / 1000) = Inr ?st"
    by (simp add: make_step_simvoja_def SimVoja_init_def np_newaxis1_def)
  have hc: "honors_contract ?op ?s ?st"
    using learning_operators_honor_contract [of _ "''post''" _ "''delta''" 1 _ ?s "1 / 1000" _ _ "''pre''" "''enc''" ?sc "''learn''"] mk
    by blast
  have "agree_on (addresses ?s (reads ?op @ updates ?op)) ?h1 (?h1(9 := \<lparr>shape = [1], data = [5]\<rparr>))"
    by (simp add: agree_on_def SimVoja_init_def addresses_Cons addresses_Nil)
  with hc have "same_outcome (addresses ?s (sets ?op @ incs ?op @ updates ?op))
      (?st ?h1) (?st (?h1(9 := \<lparr>shape = [1], data = [5]\<rparr>)))"
    unfolding honors_contract_def by blast
  then have "same_outcome {3} (?st ?h1) (?st (?h1(9 := \<lparr>shape = [1], data = [5]\<rparr>)))"
    by (simp add: SimVoja_init_def addresses_Cons addresses_Nil)
  with mk hc show "\<exists>step. make_step_simvoja ?op ?s (1 / 1000) = Inr step
      \<and> honors_contract ?op ?s step
      \<and> same_outcome {3} (step ?h1) (step (?h1(9 := \<lparr>shape = [1], data = [5]\<rparr>)))"
    by blast
qed

text \<open>
  C9. For each of SimBCM, SimOja and SimVoja the buffer of \<open>delta\<close> after a step does not
  depend on what it held before: on two heaps with the same input buffers and a \<open>delta\<close>
  of the same shape, a step that returns on one returns on the other and leaves the same
  \<open>delta\<close>.
\<close>

theorem learning_operators_overwrite_delta:
  fixes dt lr beta :: "'a::{times,minus,plus,uminus}"
  shows
   "(\<forall>step. make_step_simbcm (SimBCM_init pre post theta delta lr tag) signals dt = Inr step
        \<longrightarrow> overwrites_updates (SimBCM_init pre post theta delta lr tag) signals step)
  \<and> (\<forall>step. make_step_simoja (SimOja_init pre post weights delta lr beta tag) signals dt
          = Inr step
        \<longrightarrow> overwrites_updates (SimOja_init pre post weights delta lr beta tag) signals step)
  \<and> (\<forall>step. make_step_simvoja
               (SimVoja_init pre_decoded post scaled_encoders delta scale learning_signal lr)
               signals dt = Inr step
        \<longrightarrow> overwrites_updates
              (SimVoja_init pre_decoded post scaled_encoders delta scale learning_signal lr)
              signals step)"
  by (intro conjI allI impI overwrites_simbcm overwrites_simoja overwrites_simvoja)

text \<open>
  The three operators started from a \<open>delta\<close> of \<open>[[0, 0]]\<close> and from one of \<open>[[7, 9]]\<close>.
\<close>

theorem learning_operators_overwrite_delta_witness:
  "(\<exists>step h1' h2'.
      make_step_simbcm (SimBCM_init ''pre'' ''post'' ''theta'' ''delta'' (1::real) None)
        [''pre'' \<mapsto> 0, ''post'' \<mapsto> 1, ''theta'' \<mapsto> 2, ''delta'' \<mapsto> 3] (1 / 1000) = Inr step
    \<and> step ((\<lambda>_. np_zeros [])
          (0 := \<lparr>shape = [2], data = [1 / 5, 2 / 5]\<rparr>,
           1 := \<lparr>shape = [1], data = [1 / 2]\<rparr>,
           2 := \<lparr>shape = [1], data = [1 / 10]\<rparr>,
           3 := \<lparr>shape = [1, 2], data = [0, 0]\<rparr>)) = Inr h1'
    \<and> step ((\<lambda>_. np_zeros [])
          (0 := \<lparr>shape = [2], data = [1 / 5, 2 / 5]\<rparr>,
           1 := \<lparr>shape = [1], data = [1 / 2]\<rparr>,
           2 := \<lparr>shape = [1], data = [1 / 10]\<rparr>,
           3 := \<lparr>shape = [1, 2], data = [7, 9]\<rparr>)) = Inr h2'
    \<and> h1' 3 = h2' 3)
 \<and> (\<exists>step h1' h2'.
      make_step_simoja (SimOja_init ''pre'' ''post'' ''weights'' ''delta'' (1::real) 1 None)
        [''pre'' \<mapsto> 0, ''post'' \<mapsto> 1, ''weights'' \<mapsto> 2, ''delta'' \<mapsto> 3] (1 / 1000) = Inr step
    \<and> step ((\<lambda>_. np_zeros [])
          (0 := \<lparr>shape = [2], data = [1 / 5, 2 / 5]\<rparr>,
           1 := \<lparr>shape = [1], data = [1 / 2]\<rparr>,
           2 := \<lparr>shape = [1, 2], data = [1, 1]\<rparr>,
           3 := \<lparr>shape = [1, 2], data = [0, 0]\<rparr>)) = Inr h1'
    \<and> step ((\<lambda>_. np_zeros [])
          (0 := \<lparr>shape = [2], data = [1 / 5, 2 / 5]\<rparr>,
           1 := \<lparr>shape = [1], data = [1 / 2]\<rparr>,
           2 := \<lparr>shape = [1, 2], data = [1, 1]\<rparr>,
           3 := \<lparr>shape = [1, 2], data = [7, 9]\<rparr>)) = Inr h2'
    \<and> h1' 3 = h2' 3)
 \<and> (\<exists>step h1' h2'.
      make_step_simvoja
        (SimVoja_init ''pre'' ''post'' ''enc'' ''delta'' \<lparr>shape = [1], data = [3]\<rparr> ''learn'' (1::real))
        [''pre'' \<mapsto> 0, ''post'' \<mapsto> 1, ''enc'' \<mapsto> 2, ''delta'' \<mapsto> 3, ''learn'' \<mapsto> 4] (1 / 1000)
        = Inr step
    \<and> step ((\<lambda>_. np_zeros [])
          (0 := \<lparr>shape = [2], data = [1 / 2, 1 / 4]\<rparr>,
           1 := \<lparr>shape = [1], data = [2]\<rparr>,
           2 := \<lparr>shape = [1, 2], data = [1, 0]\<rparr>,
           3 := \<lparr>shape = [1, 2], data = [0, 0]\<rparr>,
           4 := \<lparr>shape = [1], data = [1]\<rparr>)) = Inr h1'
    \<and> step ((\<lambda>_. np_zeros [])
          (0 := \<lparr>shape = [2], data = [1 / 2, 1 / 4]\<rparr>,
           1 := \<lparr>shape = [1], data = [2]\<rparr>,
           2 := \<lparr>shape = [1, 2], data = [1, 0]\<rparr>,
           3 := \<lparr>shape = [1, 2], data = [7, 9]\<rparr>,
           4 := \<lparr>shape = [1], data = [1]\<rparr>)) = Inr h2'
    \<and> h1' 3 = h2' 3)"
proof (intro conjI)
  let ?s = "[''pre'' \<mapsto> 0::nat, ''post'' \<mapsto> 1, ''theta'' \<mapsto> 2, ''delta'' \<mapsto> 3]"
  let ?op = "SimBCM_init ''pre'' ''post'' ''theta'' ''delta'' (1::real) None"
  let ?st = "step_simbcm (1 * (1 / 1000) :: real) 0 1 2 3"
  let ?h1 = "(\<lambda>_::nat. np_zeros [])
          (0 := \<lparr>shape = [2], data = [1 / 5, 2 / 5 :: real]\<rparr>,
           1 := \<lparr>shape = [1], data = [1 / 2]\<rparr>,
           2 := \<lparr>shape = [1], data = [1 / 10]\<rparr>,
           3 := \<lparr>shape = [1, 2], data = [0, 0]\<rparr>)"
  let ?h2 = "(\<lambda>_::nat. np_zeros [])
          (0 := \<lparr>shape = [2], data = [1 / 5, 2 / 5 :: real]\<rparr>,
           1 := \<lparr>shape = [1], data = [1 / 2]\<rparr>,
           2 := \<lparr>shape = [1], data = [1 / 10]\<rparr>,
           3 := \<lparr>shape = [1, 2], data = [7, 9]\<rparr>)"
  have mk: "make_step_simbcm ?op ?s (1 / 1000) = Inr ?st"
    by (simp add: make_step_simbcm_def SimBCM_init_def)
  have ov: "overwrites_updates ?op ?s ?st"
    using learning_operators_overwrite_delta [of "''pre''" "''post''" "''theta''" "''delta''" 1 None ?s "1 / 1000"] mk
    by blast
  obtain r where s1: "?st ?h1 = Inr (?h1(3 := r))"
    using step_simbcm_eq [of 2 ?h1 0 1 1 2 3 "1 * (1 / 1000)"]
    by (simp add: is_vector_def)
  have "agree_on (addresses ?s (reads ?op)) ?h1 ?h2"
    by (simp add: agree_on_def SimBCM_init_def addresses_Cons addresses_Nil)
  moreover have "\<forall>a\<in>addresses ?s (updates ?op). shape (?h1 a) = shape (?h2 a)"
    by (simp add: SimBCM_init_def addresses_Cons addresses_Nil)
  ultimately obtain h2' where "?st ?h2 = Inr h2'" "agree_on (addresses ?s (updates ?op)) (?h1(3 := r)) h2'"
    using ov s1 unfolding overwrites_updates_def by blast
  then have "?st ?h2 = Inr h2' \<and> (?h1(3 := r)) 3 = h2' 3"
    by (simp add: agree_on_def SimBCM_init_def addresses_Cons addresses_Nil)
  with mk s1 show "\<exists>step h1' h2'. make_step_simbcm ?op ?s (1 / 1000) = Inr step
      \<and> step ?h1 = Inr h1' \<and> step ?h2 = Inr h2' \<and> h1' 3 = h2' 3"
    by blast
next
  let ?s = "[''pre'' \<mapsto> 0::nat, ''post'' \<mapsto> 1, ''weights'' \<mapsto> 2, ''delta'' \<mapsto> 3]"
  let ?op = "SimOja_init ''pre'' ''post'' ''weights'' ''delta'' (1::real) 1 None"
  let ?st = "step_simoja (1 * (1 / 1000) :: real) 1 2 0 1 3"
  let ?h1 = "(\<lambda>_::nat. np_zeros [])
          (0 := \<lparr>shape = [2], data = [1 / 5, 2 / 5 :: real]\<rparr>,
           1 := \<lparr>shape = [1], data = [1 / 2]\<rparr>,
           2 := \<lparr>shape = [1, 2], data = [1, 1]\<rparr>,
           3 := \<lparr>shape = [1, 2], data = [0, 0]\<rparr>)"
  let ?h2 = "(\<lambda>_::nat. np_zeros [])
          (0 := \<lparr>shape = [2], data = [1 / 5, 2 / 5 :: real]\<rparr>,
           1 := \<lparr>shape = [1], data = [1 / 2]\<rparr>,
           2 := \<lparr>shape = [1, 2], data = [1, 1]\<rparr>,
           3 := \<lparr>shape = [1, 2], data = [7, 9]\<rparr>)"
  have mk: "make_step_simoja ?op ?s (1 / 1000) = Inr ?st"
    by (simp add: make_step_simoja_def SimOja_init_def)
  have ov: "overwrites_updates ?op ?s ?st"
    using learning_operators_overwrite_delta [of "''pre''" "''post''" _ "''delta''" 1 None ?s "1 / 1000" "''weights''" 1] mk
    by blast
  obtain r where s1: "?st ?h1 = Inr (?h1(3 := r))"
    using step_simoja_eq [of 2 ?h1 0 1 1 2 3 "1 * (1 / 1000)" 1]
    by (simp add: is_vector_def is_matrix_def)
  have "agree_on (addresses ?s (reads ?op)) ?h1 ?h2"
    by (simp add: agree_on_def SimOja_init_def addresses_Cons addresses_Nil)
  moreover have "\<forall>a\<in>addresses ?s (updates ?op). shape (?h1 a) = shape (?h2 a)"
    by (simp add: SimOja_init_def addresses_Cons addresses_Nil)
  ultimately obtain h2' where "?st ?h2 = Inr h2'" "agree_on (addresses ?s (updates ?op)) (?h1(3 := r)) h2'"
    using ov s1 unfolding overwrites_updates_def by blast
  then have "?st ?h2 = Inr h2' \<and> (?h1(3 := r)) 3 = h2' 3"
    by (simp add: agree_on_def SimOja_init_def addresses_Cons addresses_Nil)
  with mk s1 show "\<exists>step h1' h2'. make_step_simoja ?op ?s (1 / 1000) = Inr step
      \<and> step ?h1 = Inr h1' \<and> step ?h2 = Inr h2' \<and> h1' 3 = h2' 3"
    by blast
next
  let ?s = "[''pre'' \<mapsto> 0::nat, ''post'' \<mapsto> 1, ''enc'' \<mapsto> 2, ''delta'' \<mapsto> 3, ''learn'' \<mapsto> 4]"
  let ?sc = "\<lparr>shape = [1], data = [3::real]\<rparr>"
  let ?op = "SimVoja_init ''pre'' ''post'' ''enc'' ''delta'' ?sc ''learn'' (1::real)"
  let ?st = "step_simvoja (1 * (1 / 1000) :: real) \<lparr>shape = [1, 1], data = [3]\<rparr> 0 1 2 3 4"
  let ?h1 = "(\<lambda>_::nat. np_zeros [])
          (0 := \<lparr>shape = [2], data = [1 / 2, 1 / 4 :: real]\<rparr>,
           1 := \<lparr>shape = [1], data = [2]\<rparr>,
           2 := \<lparr>shape = [1, 2], data = [1, 0]\<rparr>,
           3 := \<lparr>shape = [1, 2], data = [0, 0]\<rparr>,
           4 := \<lparr>shape = [1], data = [1]\<rparr>)"
  let ?h2 = "(\<lambda>_::nat. np_zeros [])
          (0 := \<lparr>shape = [2], data = [1 / 2, 1 / 4 :: real]\<rparr>,
           1 := \<lparr>shape = [1], data = [2]\<rparr>,
           2 := \<lparr>shape = [1, 2], data = [1, 0]\<rparr>,
           3 := \<lparr>shape = [1, 2], data = [7, 9]\<rparr>,
           4 := \<lparr>shape = [1], data = [1]\<rparr>)"
  have mk: "make_step_simvoja ?op ?s (1 / 1000) = Inr ?st"
    by (simp add: make_step_simvoja_def SimVoja_init_def np_newaxis1_def)
  have ov: "overwrites_updates ?op ?s ?st"
    using learning_operators_overwrite_delta [of _ "''post''" _ "''delta''" 1 _ ?s "1 / 1000" _ _ "''pre''" "''enc''" ?sc "''learn''"] mk
    by blast
  obtain r where s1: "?st ?h1 = Inr (?h1(3 := r))"
    using step_simvoja_eq [of 2 ?h1 0 1 1 2 3 "\<lparr>shape = [1, 1], data = [3]\<rparr>" 4 "1 * (1 / 1000)"]
    by (simp add: is_vector_def is_scalar_def)
  have "agree_on (addresses ?s (reads ?op)) ?h1 ?h2"
    by (simp add: agree_on_def SimVoja_init_def addresses_Cons addresses_Nil)
  moreover have "\<forall>a\<in>addresses ?s (updates ?op). shape (?h1 a) = shape (?h2 a)"
    by (simp add: SimVoja_init_def addresses_Cons addresses_Nil)
  ultimately obtain h2' where "?st ?h2 = Inr h2'" "agree_on (addresses ?s (updates ?op)) (?h1(3 := r)) h2'"
    using ov s1 unfolding overwrites_updates_def by blast
  then have "?st ?h2 = Inr h2' \<and> (?h1(3 := r)) 3 = h2' 3"
    by (simp add: agree_on_def SimVoja_init_def addresses_Cons addresses_Nil)
  with mk s1 show "\<exists>step h1' h2'. make_step_simvoja ?op ?s (1 / 1000) = Inr step
      \<and> step ?h1 = Inr h1' \<and> step ?h2 = Inr h2' \<and> h1' 3 = h2' 3"
    by blast
qed

section \<open>The builders\<close>

lemma n_neurons_of_Inr: "n_neurons_of x = Inr n \<longleftrightarrow> (\<exists>e. x = Ensemble e \<and> n = n_neurons e)"
  by (cases x) auto

lemma dimensions_of_Inr: "dimensions_of x = Inr n \<longleftrightarrow> (\<exists>e. x = Ensemble e \<and> n = dimensions e)"
  by (cases x) auto

lemma sig_shape_new_signal [simp]: "sig_shape (fst (new_signal m v n)) = shape v"
  by (simp add: new_signal_def)

lemma shape_np_zeros [simp]: "shape (np_zeros s) = s"
  by (simp add: np_zeros_def)

lemma setup_delta_shape:
  assumes "setup_delta m rule = Inr ((delta, target, tag), m1)"
  shows "(modifies rule = ''encoders'' \<longrightarrow>
           (\<exists>post. get_post_ens (connection rule) = Inr (Ensemble post)
              \<and> sig_shape delta = [n_neurons post, dimensions post]))
       \<and> ((modifies rule = ''decoders'' \<or> modifies rule = ''weights'')
            \<and> \<not> is_factored (connection rule) \<longrightarrow>
           (\<exists>pre post. get_pre_ens (connection rule) = Inr pre
              \<and> get_post_ens (connection rule) = Inr (Ensemble post)
              \<and> sig_shape delta = [n_neurons post, n_neurons pre]))
       \<and> ((modifies rule = ''decoders'' \<or> modifies rule = ''weights'')
            \<and> is_factored (connection rule) \<longrightarrow>
           (\<exists>pre. get_pre_ens (connection rule) = Inr pre
              \<and> sig_shape delta = [size_in rule, n_neurons pre]))"
proof (cases "modifies rule = ''encoders''")
  case True
  with assms show ?thesis
    by (auto simp: setup_delta_def bindE_Inr_iff Let_def new_signal_def n_neurons_of_Inr
          dimensions_of_Inr)
next
  case False
  show ?thesis
  proof (cases "is_factored (connection rule)")
    case True
    with assms False show ?thesis
      by (auto simp: setup_delta_def bindE_Inr_iff Let_def new_signal_def split: if_splits)
  next
    case unfactored: False
    with assms False show ?thesis
      by (auto simp: setup_delta_def bindE_Inr_iff Let_def new_signal_def n_neurons_of_Inr
            split: if_splits)
  qed
qed

lemmas build_defs =
  build_learning_rule_def setup_delta_def build_rule_type_def build_bcm_def build_oja_def
  build_voja_def build_pes_def pes_error_def pes_activities_def pes_correction_def
  pes_local_error_def pes_delta_def pes_n_neurons_def
  spec_env_def spec_add_op_def spec_build_lowpass_def drop_env_def drop_add_op_def
  new_signal_def sig_get_def sig_set_def params_get_def params_set_def get_pre_ens_def get_post_ens_def
  py_truediv_def shape0_def np_sdiv_def
  ex_model_def ex_pre_def ex_post_def ex_node_def Let_def

lemma bindE_Inl_iff: "bindE m f = Inl e \<longleftrightarrow> m = Inl e \<or> (\<exists>x. m = Inr x \<and> f x = Inl e)"
  by (cases m) simp_all

lemma setup_delta_never_unfactored: "setup_delta m rule \<noteq> Inl unfactored_encoders"
proof
  assume a: "setup_delta m rule = Inl unfactored_encoders"
  have 1: "sig_get m k n \<noteq> Inl unfactored_encoders" for k n
    by (simp add: sig_get_def unfactored_encoders_def split: option.splits)
  have 2: "get_post_ens c \<noteq> Inl e" for c e
    by (simp add: get_post_ens_def split: nengo_object.splits)
  have 3: "get_pre_ens c \<noteq> Inl unfactored_encoders" for c
    by (simp add: get_pre_ens_def unfactored_encoders_def split: nengo_object.splits)
  have 4: "n_neurons_of x \<noteq> Inl unfactored_encoders" "dimensions_of x \<noteq> Inl unfactored_encoders" for x
    by (cases x; simp add: unfactored_encoders_def)+
  have 5: "unknown_target t \<noteq> unfactored_encoders" for t
    by (simp add: unknown_target_def unfactored_encoders_def)
  from a show False
    by (auto simp: setup_delta_def bindE_Inl_iff Let_def new_signal_def 1 2 3 4 5 split: if_splits)
qed

text \<open>
  C7. In every build of a learning rule that succeeds, the delta signal has the shape of its
  target, it is the signal given to the accumulate operator and recorded under
  \<open>'delta'\<close>, and its shape is: post neuron count by post dimensionality when the rule
  modifies the encoders; post neuron count by pre neuron count when it modifies decoders
  or weights on an unfactored connection; rule input width by pre neuron count when it
  modifies decoders or weights on a factored connection.
\<close>

theorem build_learning_rule_delta_shape:
  assumes "build_learning_rule ext m rule = Inr m'"
  shows "\<exists>delta target tag m1 one m2.
      setup_delta m rule = Inr ((delta, target, tag), m1)
    \<and> sig_shape delta = sig_shape target
    \<and> sig_get m1 CommonKey (Number 1) = Inr one
    \<and> add_op ext (ElementwiseInc one delta target tag) m1 = Inr m2
    \<and> build_rule_type ext (sig_set m2 (RuleKey rule) (Name ''delta'') delta)
          (learning_rule_type rule) rule = Inr m'
    \<and> (modifies rule = ''encoders'' \<longrightarrow>
           (\<exists>post. get_post_ens (connection rule) = Inr (Ensemble post)
              \<and> sig_shape delta = [n_neurons post, dimensions post]))
    \<and> ((modifies rule = ''decoders'' \<or> modifies rule = ''weights'')
            \<and> \<not> is_factored (connection rule) \<longrightarrow>
           (\<exists>pre post. get_pre_ens (connection rule) = Inr pre
              \<and> get_post_ens (connection rule) = Inr (Ensemble post)
              \<and> sig_shape delta = [n_neurons post, n_neurons pre]))
    \<and> ((modifies rule = ''decoders'' \<or> modifies rule = ''weights'')
            \<and> is_factored (connection rule) \<longrightarrow>
           (\<exists>pre. get_pre_ens (connection rule) = Inr pre
              \<and> sig_shape delta = [size_in rule, n_neurons pre]))"
proof -
  from assms obtain delta target tag m1 where
    sd: "setup_delta m rule = Inr ((delta, target, tag), m1)"
    and rest: "(if sig_shape delta \<noteq> sig_shape target then Inl AssertionError else
     bindE (sig_get m1 CommonKey (Number 1)) (\<lambda>one.
     bindE (add_op ext (ElementwiseInc one delta target tag) m1) (\<lambda>m.
     let m = sig_set m (RuleKey rule) (Name ''delta'') delta in
     build_rule_type ext m (learning_rule_type rule) rule))) = Inr m'"
    by (auto simp: build_learning_rule_def bindE_Inr_iff)
  from rest have eq: "sig_shape delta = sig_shape target"
    by (auto split: if_splits)
  with rest obtain one m2 where
    "sig_get m1 CommonKey (Number 1) = Inr one"
    "add_op ext (ElementwiseInc one delta target tag) m1 = Inr m2"
    "build_rule_type ext (sig_set m2 (RuleKey rule) (Name ''delta'') delta)
          (learning_rule_type rule) rule = Inr m'"
    by (auto simp: bindE_Inr_iff Let_def)
  with sd eq setup_delta_shape [OF sd] show ?thesis
    by blast
qed

text \<open>
  A rule that modifies the weights of an unfactored connection from 3 to 5 neurons: the
  delta has the shape \<open>(5, 3)\<close>.
\<close>

theorem build_learning_rule_delta_shape_witness:
  "\<exists>m' delta target tag m1.
      build_learning_rule spec_env
        (ex_model \<lparr>pre_obj = Ensemble ex_pre, post_obj = Ensemble ex_post, is_factored = False\<rparr> [5, 3])
        \<lparr>connection = \<lparr>pre_obj = Ensemble ex_pre, post_obj = Ensemble ex_post, is_factored = False\<rparr>,
         learning_rule_type = RuleBCM \<lparr>BCM_pre_tau = 1 / 200, BCM_post_tau = 1 / 200,
            BCM_theta_tau = 1, BCM_learning_rate = 1 / 1000\<rparr>,
         modifies = ''weights'', size_in = 2\<rparr> = Inr m'
    \<and> setup_delta
        (ex_model \<lparr>pre_obj = Ensemble ex_pre, post_obj = Ensemble ex_post, is_factored = False\<rparr> [5, 3])
        \<lparr>connection = \<lparr>pre_obj = Ensemble ex_pre, post_obj = Ensemble ex_post, is_factored = False\<rparr>,
         learning_rule_type = RuleBCM \<lparr>BCM_pre_tau = 1 / 200, BCM_post_tau = 1 / 200,
            BCM_theta_tau = 1, BCM_learning_rate = 1 / 1000\<rparr>,
         modifies = ''weights'', size_in = 2\<rparr> = Inr ((delta, target, tag), m1)
    \<and> sig_shape delta = [5, 3]
    \<and> sig_shape target = [5, 3]"
proof -
  let ?c = "\<lparr>pre_obj = Ensemble ex_pre, post_obj = Ensemble ex_post, is_factored = False\<rparr>"
  let ?r = "\<lparr>connection = ?c,
         learning_rule_type = RuleBCM \<lparr>BCM_pre_tau = 1 / 200, BCM_post_tau = 1 / 200,
            BCM_theta_tau = 1, BCM_learning_rate = 1 / 1000\<rparr>,
         modifies = ''weights'', size_in = 2\<rparr>"
  obtain m' where b: "build_learning_rule spec_env (ex_model ?c [5, 3]) ?r = Inr m'"
    by (simp add: build_defs)
  from build_learning_rule_delta_shape [OF b] obtain delta target tag m1 where
    sd: "setup_delta (ex_model ?c [5, 3]) ?r = Inr ((delta, target, tag), m1)"
    and eq: "sig_shape delta = sig_shape target"
    and sh: "(modifies ?r = ''decoders'' \<or> modifies ?r = ''weights'')
            \<and> \<not> is_factored (connection ?r) \<longrightarrow>
           (\<exists>pre post. get_pre_ens (connection ?r) = Inr pre
              \<and> get_post_ens (connection ?r) = Inr (Ensemble post)
              \<and> sig_shape delta = [n_neurons post, n_neurons pre])"
    by blast
  from sh have "sig_shape delta = [5, 3]"
    by (auto simp: get_pre_ens_def get_post_ens_def ex_pre_def ex_post_def)
  with b sd eq show ?thesis
    by (intro exI [of _ m'] exI [of _ delta] exI [of _ target] exI [of _ tag] exI [of _ m1]) simp
qed

text \<open>
  C1. The claim is that a rule that modifies the encoders of an unfactored connection
  fails to build with the unfactored-encoder-learning error. The code never raises that
  error: no set-up of a delta signal ends with it, and on the unfactored connection of
  the small network the build of such a rule succeeds, registers the accumulate operator
  on the encoders and records the delta signal.
\<close>

theorem unfactored_encoder_learning_builds:
  "(\<forall>m rule. setup_delta m rule \<noteq> Inl unfactored_encoders)
 \<and> (\<exists>m'.
      build_learning_rule spec_env
        (ex_model \<lparr>pre_obj = Ensemble ex_pre, post_obj = Ensemble ex_post, is_factored = False\<rparr> [5, 3])
        \<lparr>connection = \<lparr>pre_obj = Ensemble ex_pre, post_obj = Ensemble ex_post, is_factored = False\<rparr>,
         learning_rule_type = RuleVoja \<lparr>Voja_post_tau = None, Voja_learning_rate = 1 / 100\<rparr>,
         modifies = ''encoders'', size_in = 1\<rparr> = Inr m'
    \<and> length (operators m') = 3
    \<and> hd (operators m') =
        ElementwiseInc (Signal 0 ''ONE'' (np_scalar 1)) (Signal 7 ''Delta'' (np_zeros [5, 2]))
          (Signal 3 ''post.encoders'' (np_zeros [5, 2])) ''encoders += delta''
    \<and> sig m'
        (RuleKey \<lparr>connection = \<lparr>pre_obj = Ensemble ex_pre, post_obj = Ensemble ex_post, is_factored = False\<rparr>,
           learning_rule_type = RuleVoja \<lparr>Voja_post_tau = None, Voja_learning_rate = 1 / 100\<rparr>,
           modifies = ''encoders'', size_in = 1\<rparr>, Name ''delta'')
        = Some (Signal 7 ''Delta'' (np_zeros [5, 2])))"
proof (intro conjI allI)
  fix m rule
  show "setup_delta m rule \<noteq> Inl unfactored_encoders"
    by (rule setup_delta_never_unfactored)
qed (simp add: build_defs)

lemma operators_sig_set [simp]: "operators (sig_set m k n s) = operators m"
  by (simp add: sig_set_def)

lemma operators_params_set [simp]: "operators (params_set m k p) = operators m"
  by (simp add: params_set_def)

lemma operators_new_signal [simp]: "operators (snd (new_signal m v n)) = operators m"
  by (simp add: new_signal_def)






lemma build_voja_appends:
  assumes "build_voja ext m voja rule = Inr m'"
  shows "\<exists>ops op. operators m' = ops @ [OpSimVoja op]"
  using assms
  by (auto simp: build_voja_def bindE_Inr_iff Let_def new_signal_def
        split: if_splits option.splits)







lemma step_reset_vec:
  assumes "is_vector n (h ca)"
  shows "step_reset v ca h = Inr (h(ca := \<lparr>shape = [n], data = map (\<lambda>k. v) [0..<n]\<rparr>))"
  using assms
  by (simp add: step_reset_def np_assign_def np_scalar_def is_vector_def pad_shape_def
        broadcast_data_def)


lemma np_iadd_vec:
  assumes "shape d = [n]" "shape v = [n]"
  shows "np_iadd d v = Inr \<lparr>shape = [n], data = map (\<lambda>k. data d ! k + data v ! k) [0..<n]\<rparr>"
  by (simp add: np_iadd_def np_add_def np_binop_vec_vec [OF assms] assms(1))


lemma rb_add: "registers_by_append ext \<Longrightarrow> add_op ext op m = Inr m' \<longleftrightarrow> m' = m\<lparr>operators := operators m @ [op]\<rparr>"
  by (auto simp: registers_by_append_def spec_add_op_def)










lemma np_dot_mat_vec:
  assumes "shape a = [n, d]" "shape x = [d]"
  shows "np_dot a x = Inr \<lparr>shape = [n],
     data = map (\<lambda>i. sum_list (map (\<lambda>t. data a ! (i * d + t) * data x ! t) [0..<d])) [0..<n]\<rparr>"
  using assms by (simp add: np_dot_def Let_def)

lemma reset_then_dotinc_matrix:
  assumes "is_matrix n d (h ea)" "is_vector d (h ca)" "is_vector n (h la)" "la \<noteq> ea" "la \<noteq> ca"
  shows "\<exists>h1 h2. step_reset 0 la h = Inr h1 \<and> step_dotinc ea ca la h1 = Inr h2
     \<and> is_vector n (h2 la)
     \<and> (\<forall>i<n. data (h2 la) ! i
           = sum_list (map (\<lambda>t. data (h ea) ! (i * d + t) * data (h ca) ! t) [0..<d]))"
proof -
  let ?z = "\<lparr>shape = [n], data = map (\<lambda>k. 0::real) [0..<n]\<rparr>"
  let ?h1 = "h(la := ?z)"
  let ?r = "\<lparr>shape = [n],
     data = map (\<lambda>i. sum_list (map (\<lambda>t. data (h ea) ! (i * d + t) * data (h ca) ! t) [0..<d])) [0..<n]\<rparr>"
  have 1: "step_reset 0 la h = Inr ?h1"
    using assms(3) by (rule step_reset_vec [of n h la])
  have d: "np_dot (?h1 ea) (?h1 ca) = Inr ?r"
    using assms by (simp add: np_dot_mat_vec is_vector_def is_matrix_def)
  have e: "map (\<lambda>k. map (\<lambda>k. 0) [0..<n] ! k
              + map (\<lambda>i. sum_list (map (\<lambda>t. data (h ea) ! (i * d + t) * data (h ca) ! t) [0..<d]))
                  [0..<n] ! k) [0..<n]
      = map (\<lambda>i. sum_list (map (\<lambda>t. data (h ea) ! (i * d + t) * data (h ca) ! t) [0..<d])) [0..<n]"
    by (rule map_cong) simp_all
  have 2: "step_dotinc ea ca la ?h1 = Inr (?h1(la := ?r))"
    unfolding step_dotinc_def d bindE_simps
    by (simp add: np_iadd_vec [where n = n] e)
  show ?thesis
    using 1 2 by (intro exI [of _ ?h1] exI [of _ "?h1(la := ?r)"] conjI) (simp_all add: is_vector_def)
qed

text \<open>
  The choice of the local error in \<open>build_pes\<close>, once the correction is built: on an
  unfactored connection a new signal \<open>PES:encoded\<close>, reset and then incremented by the
  product of the encoders of the post population with the correction; on a factored
  connection from an ensemble or a neuron population the correction itself; on a
  factored connection from a node the unsuitable-pre-object error. A step of the
  \<open>Reset\<close> and the \<open>DotInc\<close> leaves the product of the encoders and the correction.
\<close>

lemma pes_local_error_selection:
  "(\<not> is_factored conn \<and> registers_by_append ext
      \<and> pes_local_error ext m conn correction = Inr (local_error, m') \<longrightarrow>
      (\<exists>post weights encoders rows.
         get_post_ens conn = Inr post
       \<and> sig_get m (ConnKey conn) (Name ''weights'') = Inr weights
       \<and> shape0 (sig_shape weights) = Inr rows
       \<and> sig_get m (ObjKey post) (Name ''encoders'') = Inr encoders
       \<and> local_error = Signal (n_signals m) ''PES:encoded'' (np_zeros [rows])
       \<and> operators m' = operators m
           @ [Reset local_error 0, DotInc encoders correction local_error ''PES:encode'']))
 \<and> (is_factored conn \<and> (\<exists>e. pre_obj conn = Ensemble e \<or> pre_obj conn = Neurons e) \<longrightarrow>
      pes_local_error ext m conn correction = Inr (correction, m))
 \<and> (is_factored conn \<and> (\<exists>n. pre_obj conn = Node n) \<longrightarrow>
      pes_local_error ext m conn correction = Inl unsuitable_pre)"
proof (intro conjI impI)
  assume a: "\<not> is_factored conn \<and> registers_by_append ext
      \<and> pes_local_error ext m conn correction = Inr (local_error, m')"
  then have rb: "registers_by_append ext"
    by simp
  from a show "\<exists>post weights encoders rows.
         get_post_ens conn = Inr post
       \<and> sig_get m (ConnKey conn) (Name ''weights'') = Inr weights
       \<and> shape0 (sig_shape weights) = Inr rows
       \<and> sig_get m (ObjKey post) (Name ''encoders'') = Inr encoders
       \<and> local_error = Signal (n_signals m) ''PES:encoded'' (np_zeros [rows])
       \<and> operators m' = operators m
           @ [Reset local_error 0, DotInc encoders correction local_error ''PES:encode'']"
    by (auto simp: pes_local_error_def bindE_Inr_iff Let_def new_signal_def rb_add [OF rb])
qed (auto simp: pes_local_error_def)

lemma build_pes_unsuitable_pre:
  assumes "is_factored (connection rule)" "pre_obj (connection rule) = Node n"
    and "pes_error ext m rule = Inr (err, m1)"
    and "pes_activities ext m1 pes (connection rule) = Inr (acts, m2)"
    and "pes_correction ext m2 pes (connection rule) err = Inr (correction, m3)"
  shows "build_pes ext m pes rule = Inl unsuitable_pre"
  using assms by (simp add: build_pes_def pes_local_error_def)

text \<open>
  C5. The claim is that on a factored connection from a pre object that is neither an
  ensemble nor a neuron population \<open>build_pes\<close> fails with the unsuitable-pre-object
  error. A node without input has the input width 0, which \<open>build_pes\<close> takes for
  \<open>n_neurons\<close> and divides by before it looks at the kind of the pre object: on the small
  network the build from the node fails with \<open>ZeroDivisionError\<close>. Through
  \<open>build_learning_rule\<close>, for a rule that modifies the decoders, the build from a node
  fails earlier still, in \<open>get_pre_ens\<close>.
\<close>

theorem build_pes_zero_width_node:
  "build_pes spec_env
     (sig_set
        (ex_model \<lparr>pre_obj = Node ex_node, post_obj = Ensemble ex_post, is_factored = True\<rparr> [2, 0])
        (RuleKey \<lparr>connection = \<lparr>pre_obj = Node ex_node, post_obj = Ensemble ex_post, is_factored = True\<rparr>,
           learning_rule_type = RulePES \<lparr>PES_pre_tau = 1 / 200, PES_learning_rate = 1 / 10000\<rparr>,
           modifies = ''decoders'', size_in = 2\<rparr>)
        (Name ''delta'') (Signal 99 ''Delta'' (np_zeros [2, 0])))
     \<lparr>PES_pre_tau = 1 / 200, PES_learning_rate = 1 / 10000\<rparr>
     \<lparr>connection = \<lparr>pre_obj = Node ex_node, post_obj = Ensemble ex_post, is_factored = True\<rparr>,
      learning_rule_type = RulePES \<lparr>PES_pre_tau = 1 / 200, PES_learning_rate = 1 / 10000\<rparr>,
      modifies = ''decoders'', size_in = 2\<rparr>
   = Inl ZeroDivisionError
 \<and> ZeroDivisionError \<noteq> unsuitable_pre
 \<and> build_learning_rule spec_env
     (ex_model \<lparr>pre_obj = Node ex_node, post_obj = Ensemble ex_post, is_factored = True\<rparr> [2, 0])
     \<lparr>connection = \<lparr>pre_obj = Node ex_node, post_obj = Ensemble ex_post, is_factored = True\<rparr>,
      learning_rule_type = RulePES \<lparr>PES_pre_tau = 1 / 200, PES_learning_rate = 1 / 10000\<rparr>,
      modifies = ''decoders'', size_in = 2\<rparr>
   = Inl (AttributeError ''ensemble'')"
  by (simp add: build_defs unsuitable_pre_def)


end
